theory Spec2Isabelle
  imports Main "HOL-Library.Multiset"
begin

section \<open>Data model (src/types/index.ts)\<close>

text \<open>
  JavaScript strings are modelled as \<open>string\<close>. Instants (\<open>Date.now()\<close>, file
  modification times, and the \<open>timestamp\<close> and \<open>status_updated\<close> fields, which the
  source stores as the ISO-8601 rendering of an instant and reads back with
  \<open>new Date(s).getTime()\<close>) are natural numbers of milliseconds since the epoch.
\<close>

datatype error = LockTimeout | FsError | TypeError

datatype jsval = JNull | JBool bool | JNum int | JStr string

datatype status = Pending | Success | Failed

record Edit =
  edit_file_path :: "string option"
  old_string :: "string option"
  new_string :: "string option"

record ToolInput =
  file_path :: "string option"
  edits :: "Edit list option"
  message :: "string option"

record ToolResponse =
  success :: "jsval option"
  error :: "string option"

record HookInput =
  hi_tool_name :: "string option"
  hi_tool_input :: "ToolInput option"
  hi_session_id :: "string option"
  hi_tool_response :: "ToolResponse option"

record CheckpointMetadata =
  timestamp :: nat
  tool_name :: string
  tool_input :: ToolInput
  session_id :: string
  status :: status
  files_affected :: "string list"
  status_updated :: "nat option"
  tool_response :: "ToolResponse option"

text \<open>\<open>CheckpointData\<close> is a record with its hash: the pair of the key and the record.\<close>

type_synonym CheckpointData = "string \<times> CheckpointMetadata"

record GitResult =
  returncode :: int
  stdout :: string
  stderr :: string

text \<open>
  The metadata document: projects by project hash; under each project the records by
  checkpoint hash, in the order of the object's keys (insertion order), which
  \<open>Object.entries\<close> enumerates and the stable sort keeps among equal timestamps.
\<close>

type_synonym ProjectRecords = "(string \<times> CheckpointMetadata) list"
type_synonym MetadataStore = "string \<rightharpoonup> ProjectRecords"

datatype metadata_file = NoFile | Malformed | Doc MetadataStore

record CheckpointConfig =
  enabled :: bool
  retention_days :: nat
  exclude_patterns :: "string list"
  max_file_size_mb :: nat
  checkpoint_on_stop :: bool
  auto_cleanup :: bool

record PartialConfig =
  p_enabled :: "bool option"
  p_retention_days :: "nat option"
  p_exclude_patterns :: "string list option"
  p_max_file_size_mb :: "nat option"
  p_checkpoint_on_stop :: "bool option"
  p_auto_cleanup :: "bool option"

datatype config_file = NoConfig | BadConfig | UserConfig PartialConfig

datatype file_stat = Absent | Size nat | StatFails

section \<open>The world the program runs in\<close>

datatype effect =
    Git string string
  | Sync string string
  | Reclaimed nat nat
  | Released

record world =
  clock :: nat
  lock_marker :: "nat option"
  base_writable :: bool
  metadata_json :: metadata_file
  trace :: "effect list"
  git_engine :: "effect list \<Rightarrow> string \<Rightarrow> string \<Rightarrow> GitResult"
  paths :: "string set"
  copy_ok :: "string \<Rightarrow> string \<Rightarrow> bool"
  file_stat :: "string \<Rightarrow> file_stat"
  cwd :: string
  homedir :: string
  config_json :: config_file
  config_writable :: bool

text \<open>
  \<open>clock\<close> is \<open>Date.now()\<close>; \<open>lock_marker\<close> is the modification time of
  \<open>.metadata.lock\<close> when the file exists; \<open>base_writable\<close> says whether the checkpoint
  base directory can be created and written (when it cannot, \<open>ensureDir\<close>, \<open>open\<close> and
  \<open>writeJson\<close> fail with an error other than \<open>EEXIST\<close>); \<open>metadata_json\<close> is the
  content of \<open>metadata.json\<close>; \<open>trace\<close> lists the effects performed so far, oldest
  first: \<open>Reclaimed t m\<close> is the deletion at instant \<open>t\<close>, by \<open>acquireLock\<close>, of a
  marker last modified at \<open>m\<close>, \<open>Released\<close> the deletion by \<open>releaseLock\<close>,
  \<open>Git cmd dir\<close> the shell command \<open>cmd\<close> run in directory \<open>dir\<close>, and
  \<open>Sync src dst\<close> a copy of the tree \<open>src\<close> onto \<open>dst\<close>.
  The version-control engine is opaque: \<open>git_engine\<close> gives the outcome of a command
  from the effects performed before it, the command line and the directory.
  \<open>paths\<close> are the directories \<open>pathExists\<close> finds; \<open>copy_ok\<close> says whether the copy
  of one tree onto another succeeds (the content of the trees is not modelled);
  \<open>file_stat\<close> is what \<open>existsSync\<close> and \<open>statSync\<close> report for a file, by absolute
  path; \<open>cwd\<close> is \<open>process.cwd()\<close> and \<open>homedir\<close> is \<open>os.homedir()\<close>; \<open>config_json\<close>
  is the configuration file, and \<open>config_writable\<close> whether it can be written.
  Time passes only in \<open>setTimeout\<close>, by exactly the interval asked for, and no other
  process touches the files while an operation runs. Writes to the log file and to the
  console are not modelled: the logger swallows its own errors.
\<close>

section \<open>Metadata store (src/lib/metadata.ts)\<close>

definition waitInterval :: nat where
  "waitInterval = 50"

definition defaultMaxWaitTime :: nat where
  "defaultMaxWaitTime = 5000"

function acquireLock_from :: "nat \<Rightarrow> nat \<Rightarrow> world \<Rightarrow> (error + unit) \<times> world" where
  "acquireLock_from maxWaitTime startTime w =
     (if \<not> base_writable w then (Inl FsError, w)
      else case lock_marker w of
        None \<Rightarrow> (Inr (), w\<lparr>lock_marker := Some (clock w)\<rparr>)
      | Some mtimeMs \<Rightarrow>
          if clock w - startTime > maxWaitTime then
            if clock w - mtimeMs > 10000 then
              acquireLock_from maxWaitTime startTime
                (w\<lparr>lock_marker := None, trace := trace w @ [Reclaimed (clock w) mtimeMs]\<rparr>)
            else (Inl LockTimeout, w)
          else acquireLock_from maxWaitTime startTime (w\<lparr>clock := clock w + waitInterval\<rparr>))"
  by pat_completeness auto
termination
  by (relation "measures [\<lambda>(m, s, w). if lock_marker w = None then 0 else 1,
                          \<lambda>(m, s, w). (s + m + 1) - clock w]")
     (auto simp: waitInterval_def)

definition acquireLock :: "world \<Rightarrow> (error + unit) \<times> world" where
  "acquireLock w = acquireLock_from defaultMaxWaitTime (clock w) w"

definition releaseLock :: "world \<Rightarrow> world" where
  "releaseLock w =
     (case lock_marker w of
        None \<Rightarrow> w
      | Some _ \<Rightarrow> w\<lparr>lock_marker := None, trace := trace w @ [Released]\<rparr>)"

definition loadMetadata :: "world \<Rightarrow> MetadataStore" where
  "loadMetadata w = (case metadata_json w of Doc m \<Rightarrow> m | _ \<Rightarrow> Map.empty)"

definition saveMetadata :: "MetadataStore \<Rightarrow> world \<Rightarrow> (error + unit) \<times> world" where
  "saveMetadata m w =
     (if base_writable w then (Inr (), w\<lparr>metadata_json := Doc m\<rparr>) else (Inl FsError, w))"

text \<open>A JavaScript string is truthy when it is present and not empty.\<close>

fun truthy_str :: "string option \<Rightarrow> bool" where
  "truthy_str None = False"
| "truthy_str (Some s) = (s \<noteq> [])"

definition extractFiles :: "string \<Rightarrow> ToolInput \<Rightarrow> string list" where
  "extractFiles toolName toolInput =
     (if toolName = ''Write'' \<or> toolName = ''Edit'' \<or> toolName = ''MultiEdit'' then
        if truthy_str (file_path toolInput) then [the (file_path toolInput)]
        else case edits toolInput of
          None \<Rightarrow> []
        | Some es \<Rightarrow> map (\<lambda>e. the (edit_file_path e)) (filter (\<lambda>e. truthy_str (edit_file_path e)) es)
      else [])"

text \<open>Assignment \<open>obj[key] = value\<close>: an existing key keeps its place, a new key goes last.\<close>

fun obj_set :: "string \<Rightarrow> 'v \<Rightarrow> (string \<times> 'v) list \<Rightarrow> (string \<times> 'v) list" where
  "obj_set k v [] = [(k, v)]"
| "obj_set k v ((k', v') # rest) =
     (if k' = k then (k, v) # rest else (k', v') # obj_set k v rest)"

definition obj_delete :: "string \<Rightarrow> (string \<times> 'v) list \<Rightarrow> (string \<times> 'v) list" where
  "obj_delete k kvs = filter (\<lambda>kv. fst kv \<noteq> k) kvs"

text \<open>
  The objects under a project key are ordinary objects: besides their own keys they
  inherit the members of \<open>Object.prototype\<close>. A read \<open>obj[key]\<close> finds an own key
  first and an inherited member otherwise; every inherited member is an object or a
  function, hence truthy. An assignment \<open>obj[key] = value\<close> creates or overwrites an
  own key, except for the key \<open>__proto__\<close> when it is not an own key (a parsed document
  may hold it as one): that assignment replaces the object's prototype and creates no
  key, so nothing of it reaches the persisted document. What the program writes into the
  shared built-in objects themselves is not modelled.
  Project keys are the fingerprints the program computes, twelve hexadecimal digits;
  none of them names a member of \<open>Object.prototype\<close>, and at that level the document
  is read by its own keys only.
\<close>

definition object_prototype_members :: "string list" where
  "object_prototype_members =
     [''constructor'', ''__defineGetter__'', ''__defineSetter__'', ''hasOwnProperty'',
      ''__lookupGetter__'', ''__lookupSetter__'', ''isPrototypeOf'', ''propertyIsEnumerable'',
      ''toString'', ''valueOf'', ''__proto__'', ''toLocaleString'']"

datatype 'v property = NoProperty | OwnProperty 'v | InheritedMember string

definition prop_get :: "string \<Rightarrow> (string \<times> 'v) list \<Rightarrow> 'v property" where
  "prop_get k kvs =
     (case map_of kvs k of
        Some v \<Rightarrow> OwnProperty v
      | None \<Rightarrow> if k \<in> set object_prototype_members then InheritedMember k else NoProperty)"

definition prop_set :: "string \<Rightarrow> 'v \<Rightarrow> (string \<times> 'v) list \<Rightarrow> (string \<times> 'v) list" where
  "prop_set k v kvs =
     (if k = ''__proto__'' \<and> map_of kvs k = None then kvs else obj_set k v kvs)"

definition addCheckpoint ::
  "string \<Rightarrow> string \<Rightarrow> string \<Rightarrow> ToolInput \<Rightarrow> string \<Rightarrow> world
     \<Rightarrow> (error + CheckpointMetadata) \<times> world" where
  "addCheckpoint projectHash checkpointHash toolName toolInput sessionId w =
     (case acquireLock w of
        (Inl e, w1) \<Rightarrow> (Inl e, w1)
      | (Inr _, w1) \<Rightarrow>
          let metadata = loadMetadata w1;
              project = (case metadata projectHash of None \<Rightarrow> [] | Some recs \<Rightarrow> recs);
              checkpointData = \<lparr>timestamp = clock w1, tool_name = toolName,
                 tool_input = toolInput, session_id = sessionId, status = Pending,
                 files_affected = extractFiles toolName toolInput,
                 status_updated = None, tool_response = None\<rparr>;
              metadata' = metadata(projectHash \<mapsto> prop_set checkpointHash checkpointData project)
          in case saveMetadata metadata' w1 of
               (Inl e, w2) \<Rightarrow> (Inl e, releaseLock w2)
             | (Inr _, w2) \<Rightarrow> (Inr checkpointData, releaseLock w2))"

text \<open>
  In \<open>updateCheckpointStatus\<close> the test \<open>metadata[p] && metadata[p][h]\<close> also succeeds
  on an inherited member; the fields are then written into that built-in object and the
  document is saved with the content it had.
\<close>

definition updateCheckpointStatus ::
  "string \<Rightarrow> string \<Rightarrow> status \<Rightarrow> ToolResponse option \<Rightarrow> world \<Rightarrow> (error + unit) \<times> world" where
  "updateCheckpointStatus projectHash checkpointHash newStatus toolResponse w =
     (case acquireLock w of
        (Inl e, w1) \<Rightarrow> (Inl e, w1)
      | (Inr _, w1) \<Rightarrow>
          let metadata = loadMetadata w1 in
          case metadata projectHash of
            None \<Rightarrow> (Inr (), releaseLock w1)
          | Some recs \<Rightarrow>
              (case prop_get checkpointHash recs of
                 NoProperty \<Rightarrow> (Inr (), releaseLock w1)
               | InheritedMember _ \<Rightarrow>
                   (case saveMetadata metadata w1 of
                      (Inl e, w2) \<Rightarrow> (Inl e, releaseLock w2)
                    | (Inr _, w2) \<Rightarrow> (Inr (), releaseLock w2))
               | OwnProperty r \<Rightarrow>
                   let r1 = r\<lparr>status := newStatus, status_updated := Some (clock w1)\<rparr>;
                       r2 = (case toolResponse of
                               None \<Rightarrow> r1
                             | Some resp \<Rightarrow> r1\<lparr>tool_response := Some resp\<rparr>);
                       metadata' = metadata(projectHash \<mapsto> obj_set checkpointHash r2 recs)
                   in case saveMetadata metadata' w1 of
                        (Inl e, w2) \<Rightarrow> (Inl e, releaseLock w2)
                      | (Inr _, w2) \<Rightarrow> (Inr (), releaseLock w2)))"

text \<open>
  \<open>getCheckpointMetadata\<close> returns \<open>metadata[p][h]\<close> when it is truthy and \<open>null\<close>
  (\<open>NoProperty\<close>) otherwise.
\<close>

definition getCheckpointMetadata ::
  "string \<Rightarrow> string \<Rightarrow> world \<Rightarrow> CheckpointMetadata property" where
  "getCheckpointMetadata projectHash checkpointHash w =
     (case loadMetadata w projectHash of
        None \<Rightarrow> NoProperty
      | Some recs \<Rightarrow> prop_get checkpointHash recs)"

text \<open>
  \<open>Array.prototype.sort\<close> with the comparator \<open>time(b) - time(a)\<close> is a stable sort
  into descending time: a stable ascending sort on the negated time.
\<close>

definition sort_newest_first :: "CheckpointData list \<Rightarrow> CheckpointData list" where
  "sort_newest_first cps = sort_key (\<lambda>cp. - int (timestamp (snd cp))) cps"

definition listProjectCheckpoints :: "string \<Rightarrow> world \<Rightarrow> CheckpointData list" where
  "listProjectCheckpoints projectHash w =
     (case loadMetadata w projectHash of
        None \<Rightarrow> []
      | Some recs \<Rightarrow> sort_newest_first recs)"

definition cleanupOldMetadata :: "string \<Rightarrow> nat \<Rightarrow> world \<Rightarrow> (error + unit) \<times> world" where
  "cleanupOldMetadata projectHash keepCount w =
     (case acquireLock w of
        (Inl e, w1) \<Rightarrow> (Inl e, w1)
      | (Inr _, w1) \<Rightarrow>
          let metadata = loadMetadata w1 in
          case metadata projectHash of
            None \<Rightarrow> (Inr (), releaseLock w1)
          | Some recs \<Rightarrow>
              let checkpoints = sort_newest_first recs in
              if length checkpoints > keepCount then
                let recs' = fold (\<lambda>cp acc. obj_delete (fst cp) acc) (drop keepCount checkpoints) recs;
                    metadata' = metadata(projectHash \<mapsto> recs')
                in case saveMetadata metadata' w1 of
                     (Inl e, w2) \<Rightarrow> (Inl e, releaseLock w2)
                   | (Inr _, w2) \<Rightarrow> (Inr (), releaseLock w2)
              else (Inr (), releaseLock w1))"

text \<open>The records the persisted document holds for a project, none when the project is absent.\<close>

definition project_records :: "string \<Rightarrow> world \<Rightarrow> ProjectRecords" where
  "project_records project w =
     (case loadMetadata w project of None \<Rightarrow> [] | Some recs \<Rightarrow> recs)"

section \<open>Strings and paths\<close>

text \<open>
  The JavaScript string operations and the POSIX flavour of Node's \<open>path\<close> module that
  the program calls.
\<close>

fun split_on :: "char \<Rightarrow> string \<Rightarrow> string list" where
  "split_on c [] = [[]]"
| "split_on c (x # xs) =
     (if x = c then [] # split_on c xs
      else case split_on c xs of [] \<Rightarrow> [[x]] | y # ys \<Rightarrow> (x # y) # ys)"

fun join_with :: "string \<Rightarrow> string list \<Rightarrow> string" where
  "join_with sep [] = []"
| "join_with sep [x] = x"
| "join_with sep (x # y # ys) = x @ sep @ join_with sep (y # ys)"

definition is_space :: "char \<Rightarrow> bool" where
  "is_space c = (c \<in> set [CHR '' '', CHR 0x09, CHR 0x0A, CHR 0x0B, CHR 0x0C, CHR 0x0D])"

definition trim :: "string \<Rightarrow> string" where
  "trim s = rev (dropWhile is_space (rev (dropWhile is_space s)))"

fun str_includes :: "string \<Rightarrow> string \<Rightarrow> bool" where
  "str_includes [] needle = (needle = [])"
| "str_includes (x # xs) needle = (take (length needle) (x # xs) = needle \<or> str_includes xs needle)"

text \<open>\<open>s.replace(needle, by)\<close> with a string needle: the first occurrence only.\<close>

fun replace_first :: "string \<Rightarrow> string \<Rightarrow> string \<Rightarrow> string" where
  "replace_first needle by [] = (if needle = [] then by else [])"
| "replace_first needle by (x # xs) =
     (if take (length needle) (x # xs) = needle then by @ drop (length needle) (x # xs)
      else x # replace_first needle by xs)"

definition path_sep :: string where
  "path_sep = ''/''"

definition path_isAbsolute :: "string \<Rightarrow> bool" where
  "path_isAbsolute p = (p \<noteq> [] \<and> hd p = CHR ''/'')"

text \<open>
  Segment normalisation: empty segments and \<open>.\<close> are dropped, \<open>..\<close> removes the
  segment before it; above the start it is dropped in an absolute path and kept in a
  relative one. The accumulator holds the segments kept so far, newest first.
\<close>

fun normalize_segments :: "bool \<Rightarrow> string list \<Rightarrow> string list \<Rightarrow> string list" where
  "normalize_segments allowAbove acc [] = rev acc"
| "normalize_segments allowAbove acc (seg # segs) =
     (if seg = [] \<or> seg = ''.'' then normalize_segments allowAbove acc segs
      else if seg = ''..'' then
        (case acc of
           [] \<Rightarrow> normalize_segments allowAbove (if allowAbove then [seg] else []) segs
         | a # acc' \<Rightarrow>
             if a = ''..'' then normalize_segments allowAbove (seg # acc) segs
             else normalize_segments allowAbove acc' segs)
      else normalize_segments allowAbove (seg # acc) segs)"

definition path_normalize :: "string \<Rightarrow> string" where
  "path_normalize p =
     (if p = [] then ''.''
      else let isAbs = path_isAbsolute p;
               trailingSep = (last p = CHR ''/'');
               body = join_with ''/'' (normalize_segments (\<not> isAbs) [] (split_on CHR ''/'' p))
           in if body = [] then (if isAbs then ''/'' else if trailingSep then ''./'' else ''.'')
              else (if isAbs then ''/'' else []) @ body @ (if trailingSep then ''/'' else []))"

definition path_join :: "string list \<Rightarrow> string" where
  "path_join args =
     (let parts = filter (\<lambda>a. a \<noteq> []) args in
      if parts = [] then ''.'' else path_normalize (join_with ''/'' parts))"

text \<open>\<open>path.resolve(p)\<close> with one argument, in a process whose working directory is \<open>dir\<close>.\<close>

definition path_resolve :: "string \<Rightarrow> string \<Rightarrow> string" where
  "path_resolve dir p =
     (let full = (if path_isAbsolute p then p else dir @ ''/'' @ p);
          body = join_with ''/'' (normalize_segments (\<not> path_isAbsolute full) [] (split_on CHR ''/'' full))
      in if path_isAbsolute full then ''/'' @ body
         else if body = [] then ''.'' else body)"

definition path_basename :: "string \<Rightarrow> string" where
  "path_basename p =
     (case filter (\<lambda>seg. seg \<noteq> []) (split_on CHR ''/'' p) of
        [] \<Rightarrow> []
      | segs \<Rightarrow> last segs)"

fun drop_common_prefix :: "string list \<Rightarrow> string list \<Rightarrow> string list \<times> string list" where
  "drop_common_prefix (x # xs) (y # ys) =
     (if x = y then drop_common_prefix xs ys else (x # xs, y # ys))"
| "drop_common_prefix xs ys = (xs, ys)"

definition path_relative :: "string \<Rightarrow> string \<Rightarrow> string \<Rightarrow> string" where
  "path_relative dir from to =
     (let f = filter (\<lambda>seg. seg \<noteq> []) (split_on CHR ''/'' (path_resolve dir from));
          t = filter (\<lambda>seg. seg \<noteq> []) (split_on CHR ''/'' (path_resolve dir to))
      in case drop_common_prefix f t of
           (f', t') \<Rightarrow> join_with ''/'' (replicate (length f') ''..'' @ t'))"

section \<open>Glob matching (the minimatch package)\<close>

text \<open>
  Modelled from the spec: the exclude-pattern matcher, "glob matching against path
  segments". It is the minimatch package, which the repository depends on and which is
  not part of its sources. It is
  modelled here for the patterns the configuration uses: literal characters, \<open>*\<close> and
  \<open>/\<close>, matched with the option \<open>dot: true\<close>. Pattern and path are split into
  segments at runs of \<open>/\<close> and compared segment by segment: a segment without \<open>*\<close>
  must be equal to the path segment (a trailing \<open>/\<close> in the pattern leaves a last, empty
  pattern segment); a segment with \<open>*\<close> matches a non-empty path segment in which each
  \<open>*\<close> stands for any characters, \<open>.\<close> and \<open>..\<close> excepted when the pattern segment
  starts with \<open>*\<close>. A path that runs out before the pattern does not match; a pattern
  that runs out before the path matches only when what remains of the path is one empty
  segment (the path ends with \<open>/\<close>).
\<close>

definition slashSplit :: "string \<Rightarrow> string list" where
  "slashSplit s =
     (case split_on CHR ''/'' s of
        [] \<Rightarrow> []
      | [x] \<Rightarrow> [x]
      | x # rest \<Rightarrow> x # filter (\<lambda>seg. seg \<noteq> []) (butlast rest) @ [last rest])"

fun glob_segment :: "string \<Rightarrow> string \<Rightarrow> bool" where
  "glob_segment [] [] = True"
| "glob_segment [] (x # f) = False"
| "glob_segment (c # p) [] = (c = CHR ''*'' \<and> glob_segment p [])"
| "glob_segment (c # p) (x # f) =
     (if c = CHR ''*'' then glob_segment p (x # f) \<or> glob_segment (c # p) f
      else c = x \<and> glob_segment p f)"

definition segment_match :: "string \<Rightarrow> string \<Rightarrow> bool" where
  "segment_match p f =
     (if CHR ''*'' \<notin> set p then f = p
      else f \<noteq> [] \<and> (if hd p = CHR ''*'' then f \<noteq> ''.'' \<and> f \<noteq> ''..'' else True)
           \<and> glob_segment p f)"

fun matchOne :: "string list \<Rightarrow> string list \<Rightarrow> bool" where
  "matchOne [] [] = True"
| "matchOne [] (p # ps) = False"
| "matchOne (f # fs) [] = (fs = [] \<and> f = [])"
| "matchOne (f # fs) (p # ps) = (segment_match p f \<and> matchOne fs ps)"

definition minimatch :: "string \<Rightarrow> string \<Rightarrow> bool" where
  "minimatch f pattern =
     (if pattern = [] then f = [] else matchOne (slashSplit f) (slashSplit pattern))"

section \<open>Configuration (src/lib/config.ts)\<close>

definition getDefaultConfig :: CheckpointConfig where
  "getDefaultConfig = \<lparr>enabled = True, retention_days = 7,
     exclude_patterns = [''*.log'', ''node_modules/'', ''.env'', ''__pycache__/'', ''*.tmp'',
       ''.git/'', ''dist/'', ''build/'', ''coverage/'', ''*.swp'', ''*.swo'', ''.DS_Store'',
       ''Thumbs.db''],
     max_file_size_mb = 100, checkpoint_on_stop = False, auto_cleanup = True\<rparr>"

text \<open>The object spread \<open>{...defaultConfig, ...userConfig}\<close>.\<close>

definition merge_config :: "CheckpointConfig \<Rightarrow> PartialConfig \<Rightarrow> CheckpointConfig" where
  "merge_config d u = \<lparr>
     enabled = (case p_enabled u of None \<Rightarrow> enabled d | Some v \<Rightarrow> v),
     retention_days = (case p_retention_days u of None \<Rightarrow> retention_days d | Some v \<Rightarrow> v),
     exclude_patterns = (case p_exclude_patterns u of None \<Rightarrow> exclude_patterns d | Some v \<Rightarrow> v),
     max_file_size_mb = (case p_max_file_size_mb u of None \<Rightarrow> max_file_size_mb d | Some v \<Rightarrow> v),
     checkpoint_on_stop = (case p_checkpoint_on_stop u of None \<Rightarrow> checkpoint_on_stop d | Some v \<Rightarrow> v),
     auto_cleanup = (case p_auto_cleanup u of None \<Rightarrow> auto_cleanup d | Some v \<Rightarrow> v)\<rparr>"

definition full_config :: "CheckpointConfig \<Rightarrow> PartialConfig" where
  "full_config c = \<lparr>p_enabled = Some (enabled c), p_retention_days = Some (retention_days c),
     p_exclude_patterns = Some (exclude_patterns c), p_max_file_size_mb = Some (max_file_size_mb c),
     p_checkpoint_on_stop = Some (checkpoint_on_stop c), p_auto_cleanup = Some (auto_cleanup c)\<rparr>"

text \<open>The partial paths \<open>parts.slice(0, i + 1).join(path.sep)\<close> for every index \<open>i\<close>.\<close>

definition partial_paths :: "string \<Rightarrow> string list" where
  "partial_paths relativePath =
     (let parts = split_on CHR ''/'' relativePath
      in map (\<lambda>i. join_with path_sep (take (i + 1) parts)) [0 ..< length parts])"

definition matches_pattern :: "string \<Rightarrow> string \<Rightarrow> bool" where
  "matches_pattern relativePath pattern =
     (minimatch relativePath pattern
      \<or> list_ex (\<lambda>partialPath. minimatch partialPath pattern) (partial_paths relativePath))"

definition saveConfig :: "CheckpointConfig \<Rightarrow> world \<Rightarrow> world" where
  "saveConfig c w = (if config_writable w then w\<lparr>config_json := UserConfig (full_config c)\<rparr> else w)"

definition loadConfig :: "world \<Rightarrow> CheckpointConfig \<times> world" where
  "loadConfig w =
     (case config_json w of
        UserConfig userConfig \<Rightarrow> (merge_config getDefaultConfig userConfig, w)
      | NoConfig \<Rightarrow> (getDefaultConfig, saveConfig getDefaultConfig w)
      | BadConfig \<Rightarrow> (getDefaultConfig, w))"

definition shouldExcludeFile :: "CheckpointConfig \<Rightarrow> world \<Rightarrow> string \<Rightarrow> bool" where
  "shouldExcludeFile config w filePath =
     (let relativePath = (if path_isAbsolute filePath
                          then path_relative (cwd w) (cwd w) filePath else filePath)
      in if list_ex (matches_pattern relativePath) (exclude_patterns config) then True
         else case file_stat w (path_resolve (cwd w) filePath) of
                Size n \<Rightarrow> n > max_file_size_mb config * 1024 * 1024
              | _ \<Rightarrow> False)"

section \<open>JSON text and ISO-8601 instants\<close>

definition digit_char :: "nat \<Rightarrow> char" where
  "digit_char n = ''0123456789abcdef'' ! (n mod 16)"

fun show_nat :: "nat \<Rightarrow> string" where
  "show_nat n = (if n < 10 then [digit_char n] else show_nat (n div 10) @ [digit_char (n mod 10)])"

definition show_int :: "int \<Rightarrow> string" where
  "show_int i = (if i < 0 then ''-'' @ show_nat (nat (- i)) else show_nat (nat i))"

definition json_escape :: "char \<Rightarrow> string" where
  "json_escape c =
     (if c = CHR 0x22 then [CHR 0x5C, CHR 0x22]
      else if c = CHR 0x5C then [CHR 0x5C, CHR 0x5C]
      else if c = CHR 0x08 then [CHR 0x5C, CHR ''b'']
      else if c = CHR 0x0C then [CHR 0x5C, CHR ''f'']
      else if c = CHR 0x0A then [CHR 0x5C, CHR ''n'']
      else if c = CHR 0x0D then [CHR 0x5C, CHR ''r'']
      else if c = CHR 0x09 then [CHR 0x5C, CHR ''t'']
      else if (of_char c :: nat) < 0x20
        then [CHR 0x5C, CHR ''u'', CHR ''0'', CHR ''0'',
              digit_char (of_char c div 16), digit_char (of_char c mod 16)]
      else [c])"

definition json_string :: "string \<Rightarrow> string" where
  "json_string s = [CHR 0x22] @ concat (map json_escape s) @ [CHR 0x22]"

fun json_value :: "jsval \<Rightarrow> string" where
  "json_value JNull = ''null''"
| "json_value (JBool b) = (if b then ''true'' else ''false'')"
| "json_value (JNum i) = show_int i"
| "json_value (JStr s) = json_string s"

text \<open>
  The payload attached to a checkpoint commit: the three entries the caller gives, each
  possibly missing, and any further entries, which come after them in the object.
\<close>

record NoteMetadata =
  md_tool_name :: "string option"
  md_session_id :: "string option"
  md_files :: "string list option"
  md_extra :: "(string \<times> jsval) list"

text \<open>\<open>JSON.stringify(metadata)\<close>: no white space, entries that are undefined left out.\<close>

definition json_array :: "string list \<Rightarrow> string" where
  "json_array fs = ''['' @ join_with '','' (map json_string fs) @ '']''"

definition json_members :: "string \<Rightarrow> (string list \<Rightarrow> string) \<Rightarrow> NoteMetadata \<Rightarrow> string list" where
  "json_members colon arr m =
     (case md_tool_name m of None \<Rightarrow> [] | Some v \<Rightarrow> [json_string ''tool_name'' @ colon @ json_string v])
   @ (case md_session_id m of None \<Rightarrow> [] | Some v \<Rightarrow> [json_string ''session_id'' @ colon @ json_string v])
   @ (case md_files m of None \<Rightarrow> [] | Some fs \<Rightarrow> [json_string ''files'' @ colon @ arr fs])
   @ map (\<lambda>(k, v). json_string k @ colon @ json_value v) (md_extra m)"

definition JSON_stringify :: "NoteMetadata \<Rightarrow> string" where
  "JSON_stringify m = ''{'' @ join_with '','' (json_members '':'' json_array m) @ ''}''"

text \<open>\<open>JSON.stringify(metadata, null, 2)\<close>: one entry a line, indented by two spaces a level.\<close>

definition json_array_pretty :: "string list \<Rightarrow> string" where
  "json_array_pretty fs =
     (if fs = [] then ''[]''
      else ''['' @ [CHR 0x0A] @ join_with ('','' @ [CHR 0x0A]) (map (\<lambda>f. ''    '' @ json_string f) fs)
           @ [CHR 0x0A] @ ''  ]'')"

definition JSON_stringify_pretty :: "NoteMetadata \<Rightarrow> string" where
  "JSON_stringify_pretty m =
     (let members = json_members '': '' json_array_pretty m in
      if members = [] then ''{}''
      else ''{'' @ [CHR 0x0A] @ join_with ('','' @ [CHR 0x0A]) (map (\<lambda>e. ''  '' @ e) members)
           @ [CHR 0x0A] @ ''}'')"

text \<open>\<open>Buffer.byteLength(s, 'utf8')\<close>: a \<open>string\<close> here is the sequence of its UTF-8 bytes.\<close>

definition byteLength :: "string \<Rightarrow> nat" where
  "byteLength s = length s"

definition pad_left :: "nat \<Rightarrow> nat \<Rightarrow> string" where
  "pad_left width n = replicate (width - length (show_nat n)) CHR ''0'' @ show_nat n"

text \<open>The civil date (year, month, day) of a day counted from 1970-01-01.\<close>

definition civil_from_days :: "nat \<Rightarrow> nat \<times> nat \<times> nat" where
  "civil_from_days days =
     (let z = days + 719468;
          era = z div 146097;
          doe = z mod 146097;
          yoe = (doe - doe div 1460 + doe div 36524 - doe div 146096) div 365;
          doy = doe - (365 * yoe + yoe div 4 - yoe div 100);
          mp = (5 * doy + 2) div 153;
          d = doy - (153 * mp + 2) div 5 + 1;
          m = (if mp < 10 then mp + 3 else mp - 9);
          y = yoe + era * 400 + (if m \<le> 2 then 1 else 0)
      in (y, m, d))"

definition toISOString :: "nat \<Rightarrow> string" where
  "toISOString ms =
     (case civil_from_days (ms div 86400000) of
        (y, m, d) \<Rightarrow>
          (if y \<le> 9999 then pad_left 4 y else ''+'' @ pad_left 6 y)
          @ ''-'' @ pad_left 2 m @ ''-'' @ pad_left 2 d
          @ ''T'' @ pad_left 2 (ms div 3600000 mod 24)
          @ '':'' @ pad_left 2 (ms div 60000 mod 60)
          @ '':'' @ pad_left 2 (ms div 1000 mod 60)
          @ ''.'' @ pad_left 3 (ms mod 1000) @ ''Z'')"

section \<open>Shadow repository manager (src/lib/git-ops.ts)\<close>

record GitCheckpointManager =
  projectPath :: string
  checkpointBase :: string
  projectHash :: string
  checkpointRepo :: string

record Checkpoint =
  ck_hash :: string
  ck_timestamp :: nat
  ck_message :: string
  ck_tool_name :: string
  ck_session_id :: string
  ck_files_affected :: "string list"

definition hookDir :: "world \<Rightarrow> string" where
  "hookDir w = path_join [homedir w, ''.claude'', ''hooks'', ''ixe1'', ''claude-code-checkpointing-hook'']"

text \<open>
  The constructor. \<open>sha256_hex\<close> is the hexadecimal SHA-256 digest of a string, taken
  as a parameter.
\<close>

definition new_GitCheckpointManager ::
  "(string \<Rightarrow> string) \<Rightarrow> string \<Rightarrow> string option \<Rightarrow> world \<Rightarrow> GitCheckpointManager" where
  "new_GitCheckpointManager sha256_hex path base w =
     (let pp = path_resolve (cwd w) path;
          cb = (if truthy_str base then the base else path_join [hookDir w, ''checkpoints'']);
          ph = take 12 (sha256_hex pp)
      in \<lparr>projectPath = pp, checkpointBase = cb, projectHash = ph,
          checkpointRepo = path_join [cb, ph]\<rparr>)"

definition worktreePath :: "GitCheckpointManager \<Rightarrow> string" where
  "worktreePath mgr = path_join [checkpointRepo mgr, ''worktree'']"

definition is_hex_char :: "char \<Rightarrow> bool" where
  "is_hex_char c = (c \<in> set ''0123456789abcdefABCDEF'')"

text \<open>The test \<open>/^[a-f0-9]{1,40}$/i\<close>, after the check that the string is not empty.\<close>

definition validateCheckpointHash :: "string \<Rightarrow> bool" where
  "validateCheckpointHash checkpointHash =
     (if checkpointHash = [] then False
      else 1 \<le> length checkpointHash \<and> length checkpointHash \<le> 40
           \<and> list_all is_hex_char checkpointHash)"

definition validateMetadataSize :: "NoteMetadata \<Rightarrow> bool" where
  "validateMetadataSize metadata = (byteLength (JSON_stringify metadata) \<le> 1024 * 1024)"

definition runGit ::
  "GitCheckpointManager \<Rightarrow> string list \<Rightarrow> string option \<Rightarrow> world \<Rightarrow> GitResult \<times> world" where
  "runGit mgr args dirOpt w =
     (let dir = (if truthy_str dirOpt then the dirOpt else projectPath mgr);
          cmd = ''git '' @ join_with '' '' args
      in (git_engine w (trace w) cmd dir, w\<lparr>trace := trace w @ [Git cmd dir]\<rparr>))"

definition isGitRepo :: "GitCheckpointManager \<Rightarrow> world \<Rightarrow> bool \<times> world" where
  "isGitRepo mgr w =
     (case runGit mgr [''rev-parse'', ''--git-dir''] None w of
        (result, w1) \<Rightarrow> (returncode result = 0, w1))"

definition initProjectRepo :: "GitCheckpointManager \<Rightarrow> world \<Rightarrow> bool \<times> world" where
  "initProjectRepo mgr w =
     (case isGitRepo mgr w of
        (True, w1) \<Rightarrow> (True, w1)
      | (False, w1) \<Rightarrow>
          (case runGit mgr [''init''] None w1 of
             (result, w2) \<Rightarrow>
               if returncode result \<noteq> 0 then (False, w2)
               else case runGit mgr [''add'', ''-A''] None w2 of
                 (_, w3) \<Rightarrow>
                   case runGit mgr [''commit'', ''-m'', ''Initial checkpoint commit''] None w3 of
                     (_, w4) \<Rightarrow> (True, w4)))"

definition initCheckpointRepo :: "GitCheckpointManager \<Rightarrow> world \<Rightarrow> bool \<times> world" where
  "initCheckpointRepo mgr w =
     (if checkpointRepo mgr \<in> paths w then (True, w)
      else if \<not> base_writable w then (False, w)
      else
        let w1 = w\<lparr>paths := insert (checkpointRepo mgr) (paths w)\<rparr> in
        case runGit mgr [''init'', ''--bare''] (Some (checkpointRepo mgr)) w1 of
          (result, w2) \<Rightarrow>
            if returncode result \<noteq> 0 then (False, w2)
            else if worktreePath mgr \<in> paths w2 then (True, w2)
            else case isGitRepo mgr w2 of
              (True, w3) \<Rightarrow>
                (case runGit mgr [''clone'', projectPath mgr, worktreePath mgr] None w3 of
                   (_, w4) \<Rightarrow> (True, w4))
            | (False, w3) \<Rightarrow>
                (case runGit mgr [''init''] (Some (worktreePath mgr))
                        (w3\<lparr>paths := insert (worktreePath mgr) (paths w3)\<rparr>) of
                   (_, w4) \<Rightarrow> (True, w4)))"

text \<open>
  \<open>syncFiles\<close> copies one tree onto the other, leaving out hidden entries and what the
  ignore file names; here it is the effect and whether it fails.
\<close>

definition syncFiles :: "string \<Rightarrow> string \<Rightarrow> world \<Rightarrow> (error + unit) \<times> world" where
  "syncFiles src dst w =
     (if copy_ok w src dst then (Inr (), w\<lparr>trace := trace w @ [Sync src dst]\<rparr>)
      else (Inl FsError, w))"

text \<open>The replacement of an oversized payload: \<open>x || ''\<close>, and \<open>(files || []).slice(0, 10)\<close>.\<close>

definition truncate_metadata :: "NoteMetadata \<Rightarrow> NoteMetadata" where
  "truncate_metadata metadata = \<lparr>
     md_tool_name = Some (if truthy_str (md_tool_name metadata) then the (md_tool_name metadata) else []),
     md_session_id = Some (if truthy_str (md_session_id metadata) then the (md_session_id metadata) else []),
     md_files = Some (take 10 (case md_files metadata of None \<Rightarrow> [] | Some fs \<Rightarrow> fs)),
     md_extra = []\<rparr>"

definition createCheckpoint ::
  "GitCheckpointManager \<Rightarrow> string \<Rightarrow> NoteMetadata \<Rightarrow> world \<Rightarrow> string option \<times> world" where
  "createCheckpoint mgr msg metadata0 w =
     (case initCheckpointRepo mgr w of
        (False, w1) \<Rightarrow> (None, w1)
      | (True, w1) \<Rightarrow>
          let metadata = (if \<not> validateMetadataSize metadata0
                          then truncate_metadata metadata0 else metadata0)
          in case syncFiles (projectPath mgr) (worktreePath mgr) w1 of
            (Inl e, w2) \<Rightarrow> (None, w2)
          | (Inr _, w2) \<Rightarrow>
              case runGit mgr [''add'', ''-A''] (Some (worktreePath mgr)) w2 of
                (_, w3) \<Rightarrow>
                  let commitMessage = ''CHECKPOINT: '' @ msg @ '' ['' @ toISOString (clock w3) @ '']''
                  in case runGit mgr [''commit'', ''-m'', commitMessage, ''--allow-empty'']
                            (Some (worktreePath mgr)) w3 of
                    (result, w4) \<Rightarrow>
                      if returncode result \<noteq> 0 then (None, w4)
                      else case runGit mgr [''rev-parse'', ''HEAD''] (Some (worktreePath mgr)) w4 of
                        (hashResult, w5) \<Rightarrow>
                          if returncode hashResult \<noteq> 0 then (None, w5)
                          else
                            let commitHash = trim (stdout hashResult);
                                metadataJson = JSON_stringify_pretty metadata
                            in case runGit mgr [''notes'', ''add'', ''-m'', metadataJson, commitHash]
                                      (Some (worktreePath mgr)) w5 of
                              (_, w6) \<Rightarrow>
                                case runGit mgr [''checkout'', ''main''] (Some (worktreePath mgr)) w6 of
                                  (_, w7) \<Rightarrow> (Some commitHash, w7))"

definition index_of :: "char \<Rightarrow> string \<Rightarrow> nat option" where
  "index_of c s = (if c \<in> set s then Some (length (takeWhile (\<lambda>x. x \<noteq> c) s)) else None)"

definition clean_message :: "string \<Rightarrow> string" where
  "clean_message raw =
     (if str_includes raw ''CHECKPOINT:'' then
        let m = replace_first ''CHECKPOINT: '' [] raw
        in case index_of CHR ''['' m of None \<Rightarrow> m | Some i \<Rightarrow> trim (take i m)
      else raw)"

fun listCheckpoints_loop ::
  "GitCheckpointManager \<Rightarrow> CheckpointData list \<Rightarrow> world \<Rightarrow> Checkpoint list \<times> world" where
  "listCheckpoints_loop mgr [] w = ([], w)"
| "listCheckpoints_loop mgr (cp # rest) w =
     (case runGit mgr [''rev-parse'', fst cp] (Some (worktreePath mgr)) w of
        (result, w1) \<Rightarrow>
          if returncode result = 0 then
            (case runGit mgr [''log'', ''-1'', ''--pretty=format:%s'', fst cp]
                    (Some (worktreePath mgr)) w1 of
               (msgResult, w2) \<Rightarrow>
                 let msg = clean_message
                       (if returncode msgResult = 0 then trim (stdout msgResult) else ''Unknown'');
                     entry = \<lparr>ck_hash = fst cp, ck_timestamp = timestamp (snd cp),
                              ck_message = msg, ck_tool_name = tool_name (snd cp),
                              ck_session_id = session_id (snd cp),
                              ck_files_affected = files_affected (snd cp)\<rparr>
                 in case listCheckpoints_loop mgr rest w2 of
                      (entries, w3) \<Rightarrow> (entry # entries, w3))
          else listCheckpoints_loop mgr rest w1)"

definition listCheckpoints :: "GitCheckpointManager \<Rightarrow> world \<Rightarrow> Checkpoint list \<times> world" where
  "listCheckpoints mgr w =
     (if checkpointRepo mgr \<notin> paths w then ([], w)
      else listCheckpoints_loop mgr (listProjectCheckpoints (projectHash mgr) w) w)"

definition restoreCheckpoint ::
  "GitCheckpointManager \<Rightarrow> string \<Rightarrow> bool \<Rightarrow> world \<Rightarrow> bool \<times> world" where
  "restoreCheckpoint mgr checkpointHash dryRun w =
     (if checkpointRepo mgr \<notin> paths w then (False, w)
      else if \<not> validateCheckpointHash checkpointHash then (False, w)
      else case runGit mgr [''checkout'', checkpointHash] (Some (worktreePath mgr)) w of
        (result, w1) \<Rightarrow>
          if returncode result \<noteq> 0 then (False, w1)
          else if dryRun then (True, w1)
          else case syncFiles (worktreePath mgr) (projectPath mgr) w1 of
            (Inl e, w2) \<Rightarrow> (False, w2)
          | (Inr _, w2) \<Rightarrow>
              case runGit mgr [''checkout'', ''main''] (Some (worktreePath mgr)) w2 of
                (_, w3) \<Rightarrow> (True, w3))"

section \<open>Hook handlers (src/checkpoint-manager.ts)\<close>

definition empty_ToolInput :: ToolInput where
  "empty_ToolInput = \<lparr>file_path = None, edits = None, message = None\<rparr>"

definition empty_ToolResponse :: ToolResponse where
  "empty_ToolResponse = \<lparr>success = None, error = None\<rparr>"

definition or_empty :: "string option \<Rightarrow> string" where
  "or_empty s = (if truthy_str s then the s else [])"

definition checkpoint_message :: "string \<Rightarrow> ToolInput \<Rightarrow> string" where
  "checkpoint_message toolName toolInput =
     (if toolName = ''Write'' then
        (if truthy_str (file_path toolInput)
         then ''Before creating '' @ path_basename (the (file_path toolInput))
         else ''Before creating new file'')
      else if toolName = ''Edit'' then
        (if truthy_str (file_path toolInput)
         then ''Before editing '' @ path_basename (the (file_path toolInput))
         else ''Before editing file'')
      else if toolName = ''MultiEdit'' then
        (if truthy_str (file_path toolInput)
         then ''Before '' @ show_nat (length (case edits toolInput of None \<Rightarrow> [] | Some es \<Rightarrow> es))
              @ '' edits to '' @ path_basename (the (file_path toolInput))
         else ''Before multi-edit operation'')
      else if toolName = ''Manual'' then
        (if truthy_str (message toolInput) then the (message toolInput) else ''Manual checkpoint'')
      else ''Before '' @ toolName @ '' operation'')"

definition handlePreToolUse ::
  "(string \<Rightarrow> string) \<Rightarrow> HookInput \<Rightarrow> world \<Rightarrow> (error + int) \<times> world" where
  "handlePreToolUse sha256_hex inputData w0 =
     (case loadConfig w0 of
        (config, w) \<Rightarrow>
          if \<not> enabled config then (Inr 0, w)
          else
            let toolName = or_empty (hi_tool_name inputData);
                toolInput = (case hi_tool_input inputData of None \<Rightarrow> empty_ToolInput | Some t \<Rightarrow> t);
                sessionId = or_empty (hi_session_id inputData)
            in if toolName \<notin> set [''Write'', ''Edit'', ''MultiEdit'', ''Manual''] then (Inr 0, w)
               else if truthy_str (file_path toolInput)
                     \<and> shouldExcludeFile config w (path_resolve (cwd w) (the (file_path toolInput)))
                 then (Inr 0, w)
               else
                 let mgr = new_GitCheckpointManager sha256_hex (cwd w) None w in
                 case isGitRepo mgr w of
                   (isRepo, w1) \<Rightarrow>
                     case (if isRepo then (True, w1) else initProjectRepo mgr w1) of
                       (False, w2) \<Rightarrow> (Inr 0, w2)
                     | (True, w2) \<Rightarrow>
                         let metadata = \<lparr>md_tool_name = Some toolName, md_session_id = Some sessionId,
                               md_files = Some (if truthy_str (file_path toolInput)
                                                then [the (file_path toolInput)] else []),
                               md_extra = []\<rparr>
                         in case createCheckpoint mgr (checkpoint_message toolName toolInput) metadata w2 of
                           (checkpointHash, w3) \<Rightarrow>
                             if truthy_str checkpointHash then
                               (case addCheckpoint (projectHash mgr) (the checkpointHash)
                                       toolName toolInput sessionId w3 of
                                  (Inl e, w4) \<Rightarrow> (Inl e, w4)
                                | (Inr _, w4) \<Rightarrow> (Inr 0, w4))
                             else (Inr 0, w3))"

definition handlePostToolUse ::
  "(string \<Rightarrow> string) \<Rightarrow> HookInput \<Rightarrow> world \<Rightarrow> (error + int) \<times> world" where
  "handlePostToolUse sha256_hex inputData w0 =
     (case loadConfig w0 of
        (config, w) \<Rightarrow>
          if \<not> enabled config then (Inr 0, w)
          else
            let toolName = or_empty (hi_tool_name inputData);
                toolResponse = (case hi_tool_response inputData of
                                  None \<Rightarrow> empty_ToolResponse | Some r \<Rightarrow> r)
            in if toolName \<notin> set [''Write'', ''Edit'', ''MultiEdit''] then (Inr 0, w)
               else
                 let mgr = new_GitCheckpointManager sha256_hex (cwd w) None w;
                     checkpoints = listProjectCheckpoints (projectHash mgr) w
                 in case checkpoints of
                      [] \<Rightarrow> (Inr 0, w)
                    | latestCheckpoint # _ \<Rightarrow>
                        let newStatus = (if success toolResponse \<noteq> Some (JBool False)
                                         then Success else Failed)
                        in case updateCheckpointStatus (projectHash mgr) (fst latestCheckpoint)
                                  newStatus (Some toolResponse) w of
                             (Inl e, w1) \<Rightarrow> (Inl e, w1)
                           | (Inr _, w1) \<Rightarrow> (Inr 0, w1))"

section \<open>Observations\<close>

text \<open>The project hash the handlers compute for the working directory.\<close>

definition current_project :: "(string \<Rightarrow> string) \<Rightarrow> world \<Rightarrow> string" where
  "current_project sha256_hex w = projectHash (new_GitCheckpointManager sha256_hex (cwd w) None w)"

text \<open>
  A hash resolves when \<open>git rev-parse\<close> on it, run in the shadow working tree, returns
  status 0. The queries \<open>rev-parse\<close> and \<open>log\<close> only read the history: an engine
  ignores them when its outcomes do not depend on the queries run before.
\<close>

definition resolves :: "GitCheckpointManager \<Rightarrow> world \<Rightarrow> string \<Rightarrow> bool" where
  "resolves mgr w h =
     (returncode (git_engine w (trace w) (''git rev-parse '' @ h) (worktreePath mgr)) = 0)"

fun is_query :: "effect \<Rightarrow> bool" where
  "is_query (Git cmd dir) = (take 14 cmd = ''git rev-parse '' \<or> take 8 cmd = ''git log '')"
| "is_query _ = False"

definition engine_ignores_queries :: "world \<Rightarrow> bool" where
  "engine_ignores_queries w =
     (\<forall>tr e. is_query e \<longrightarrow> git_engine w (tr @ [e]) = git_engine w tr)"

text \<open>
  \<open>runGit\<close> gives its command line to \<open>child_process.exec\<close>, which runs it with
  \<open>/bin/sh -c\<close>. The shell reads the line by its own grammar: a newline ends a command,
  and blanks separate the words of a command. \<open>sh_first_command\<close> is the argument
  vector of the first command of a command line whose first line holds no quoting,
  expansion or pattern character: the words of the text before the first newline.
  \<open>exec_argv\<close> is that vector for a git effect of the trace.
\<close>

definition sh_first_command :: "string \<Rightarrow> string list" where
  "sh_first_command cmd =
     filter (\<lambda>word. word \<noteq> []) (split_on CHR '' '' (takeWhile (\<lambda>c. c \<noteq> CHR 0x0A) cmd))"

fun exec_argv :: "effect \<Rightarrow> string list" where
  "exec_argv (Git cmd dir) = sh_first_command cmd"
| "exec_argv _ = []"

section \<open>Example worlds\<close>

text \<open>
  A machine at rest, on which every git command succeeds and prints a commit hash, and
  variants of it used to run the definitions on concrete inputs.
\<close>

definition engine_ok :: "effect list \<Rightarrow> string \<Rightarrow> string \<Rightarrow> GitResult" where
  "engine_ok tr cmd dir =
     \<lparr>returncode = 0, stdout = ''0123456789abcdef0123456789abcdef01234567'' @ [CHR 0x0A],
      stderr = []\<rparr>"

definition quiet_world :: world where
  "quiet_world = \<lparr>clock = 20000, lock_marker = None, base_writable = True,
     metadata_json = NoFile, trace = [], git_engine = engine_ok, paths = {},
     copy_ok = (\<lambda>src dst. True), file_stat = (\<lambda>p. Absent), cwd = ''/proj'',
     homedir = ''/home/u'', config_json = NoConfig, config_writable = True\<rparr>"

definition engine_fail :: "effect list \<Rightarrow> string \<Rightarrow> string \<Rightarrow> GitResult" where
  "engine_fail tr cmd dir = \<lparr>returncode = 1, stdout = [], stderr = ''fatal''\<rparr>"

text \<open>The lock marker is held and was written one second ago.\<close>

definition held_world :: world where
  "held_world = quiet_world\<lparr>lock_marker := Some 19000\<rparr>"

definition record_at :: "nat \<Rightarrow> string \<Rightarrow> string \<Rightarrow> CheckpointMetadata" where
  "record_at t tool session = \<lparr>timestamp = t, tool_name = tool, tool_input = empty_ToolInput,
     session_id = session, status = Pending, files_affected = [],
     status_updated = None, tool_response = None\<rparr>"

text \<open>Two checkpoints are recorded for the project of the working directory.\<close>

definition recorded_world :: world where
  "recorded_world = quiet_world\<lparr>metadata_json := Doc [''0a1b2c3d4e5f'' \<mapsto>
     [(''aa'', record_at 5 ''Write'' ''s1''), (''bb'', record_at 9 ''Manual'' ''s2'')]]\<rparr>"

definition sha_example :: "string \<Rightarrow> string" where
  "sha_example p = ''0a1b2c3d4e5f60718293a4b5c6d7e8f9''"

definition example_manager :: GitCheckpointManager where
  "example_manager = new_GitCheckpointManager sha_example ''/proj'' None quiet_world"

text \<open>
  Two checkpoints recorded at the same instant, in a shadow history that has lost its
  commits: every git command fails.
\<close>

definition tied_world :: world where
  "tied_world = quiet_world\<lparr>metadata_json := Doc [''0a1b2c3d4e5f'' \<mapsto>
       [(''aa'', record_at 7 ''Write'' ''s1''), (''bb'', record_at 7 ''Edit'' ''s1'')]],
     git_engine := engine_fail,
     paths := {checkpointRepo example_manager}\<rparr>"

text \<open>
  An engine whose history holds exactly the commits \<open>hs\<close>, and a world in which the
  shadow history has kept only the later of the two recorded checkpoints.
\<close>

definition engine_knows :: "string list \<Rightarrow> effect list \<Rightarrow> string \<Rightarrow> string \<Rightarrow> GitResult" where
  "engine_knows hs tr cmd dir =
     (if cmd \<in> set (map (\<lambda>h. ''git rev-parse '' @ h) hs) \<or> take 8 cmd = ''git log ''
      then \<lparr>returncode = 0, stdout = ''CHECKPOINT: Before editing a.txt [t]'', stderr = []\<rparr>
      else \<lparr>returncode = 128, stdout = [], stderr = ''fatal: bad revision''\<rparr>)"

definition pruned_world :: world where
  "pruned_world = recorded_world\<lparr>git_engine := engine_knows [''bb''],
     paths := {checkpointRepo example_manager}\<rparr>"

text \<open>The shadow repository of the project exists.\<close>

definition shadow_world :: world where
  "shadow_world = quiet_world\<lparr>paths := {checkpointRepo example_manager}\<rparr>"

text \<open>A payload of more than 1 MiB: twelve files and an entry of 1048576 characters.\<close>

definition big_metadata :: NoteMetadata where
  "big_metadata = \<lparr>md_tool_name = Some ''Write'', md_session_id = Some ''s1'',
     md_files = Some [''f0'', ''f1'', ''f2'', ''f3'', ''f4'', ''f5'', ''f6'', ''f7'', ''f8'', ''f9'',
       ''f10'', ''f11''],
     md_extra = [(''blob'', JStr (replicate 1048576 CHR ''x''))]\<rparr>"

definition small_metadata :: NoteMetadata where
  "small_metadata = \<lparr>md_tool_name = Some ''Write'', md_session_id = Some ''s1'',
     md_files = Some [''a.txt''], md_extra = []\<rparr>"

definition write_event :: HookInput where
  "write_event = \<lparr>hi_tool_name = Some ''Write'',
     hi_tool_input = Some \<lparr>file_path = Some ''a.txt'', edits = None, message = None\<rparr>,
     hi_session_id = Some ''s1'', hi_tool_response = None\<rparr>"

section \<open>Verification\<close>

subsection \<open>Lock acquisition\<close>

declare acquireLock_from.simps [simp del]

lemma acquireLock_from_poll:
  assumes "base_writable w" "lock_marker w = Some m"
    and "k = 0 \<or> clock w + waitInterval * (k - 1) - s \<le> mx"
  shows "acquireLock_from mx s w = acquireLock_from mx s (w\<lparr>clock := clock w + waitInterval * k\<rparr>)"
  using assms
proof (induction k arbitrary: w)
  case 0
  then show ?case by simp
next
  case (Suc k)
  have le: "clock w - s \<le> mx" using Suc.prems(3) by simp
  have step: "acquireLock_from mx s w = acquireLock_from mx s (w\<lparr>clock := clock w + waitInterval\<rparr>)"
    using Suc.prems(1,2) le by (subst acquireLock_from.simps) simp
  let ?w = "w\<lparr>clock := clock w + waitInterval\<rparr>"
  have "acquireLock_from mx s ?w = acquireLock_from mx s (?w\<lparr>clock := clock ?w + waitInterval * k\<rparr>)"
  proof (rule Suc.IH)
    show "base_writable ?w" using Suc.prems(1) by simp
    show "lock_marker ?w = Some m" using Suc.prems(2) by simp
    show "k = 0 \<or> clock ?w + waitInterval * (k - 1) - s \<le> mx"
    proof (cases k)
      case 0 then show ?thesis by simp
    next
      case (Suc j)
      then show ?thesis using Suc.prems(3) by (simp add: algebra_simps)
    qed
  qed
  with step show ?case by (simp add: algebra_simps)
qed

lemma acquireLock_at_deadline:
  assumes "base_writable w" "lock_marker w = Some m"
  shows "acquireLock w = acquireLock_from 5000 (clock w) (w\<lparr>clock := clock w + 5050\<rparr>)"
  using acquireLock_from_poll [OF assms, of 101 "clock w" 5000]
  by (simp add: acquireLock_def defaultMaxWaitTime_def waitInterval_def)

lemma acquireLock_held:
  assumes "base_writable w" "lock_marker w = Some m"
  shows "acquireLock w =
     (if clock w + 5050 - m > 10000
      then (Inr (), w\<lparr>clock := clock w + 5050, lock_marker := Some (clock w + 5050),
                      trace := trace w @ [Reclaimed (clock w + 5050) m]\<rparr>)
      else (Inl LockTimeout, w\<lparr>clock := clock w + 5050\<rparr>))"
  unfolding acquireLock_at_deadline [OF assms]
  using assms
  apply (subst acquireLock_from.simps)
  apply simp
  apply (subst acquireLock_from.simps)
  apply simp
  done

lemma acquireLock_free:
  assumes "base_writable w" "lock_marker w = None"
  shows "acquireLock w = (Inr (), w\<lparr>lock_marker := Some (clock w)\<rparr>)"
  unfolding acquireLock_def using assms by (subst acquireLock_from.simps) simp

lemma acquireLock_unwritable:
  assumes "\<not> base_writable w"
  shows "acquireLock w = (Inl FsError, w)"
  unfolding acquireLock_def using assms by (subst acquireLock_from.simps) simp

text \<open>
  Claim C3. A caller that finds the lock marker present polls every 50 ms; the first
  poll at which more than 5000 ms have elapsed comes 5050 ms after the start (the
  deadline). A marker whose age at the deadline exceeds 10000 ms is deleted there and
  the retry acquires the lock; a marker whose age at the deadline is at most 10000 ms
  is left in place and the call fails with the lock-timeout error; and every deletion
  that \<open>acquireLock\<close> performs happens after more than 5000 ms of waiting, on a marker
  older than 10000 ms: a fresh marker is never deleted, and no marker is deleted before
  the bounded wait has elapsed.
\<close>

theorem acquireLock_reclaims_stale_only_after_wait:
  assumes "base_writable w" and "lock_marker w = Some m"
  shows "(clock w + 5050 - m > 10000 \<longrightarrow>
            fst (acquireLock w) = Inr ()
          \<and> trace (snd (acquireLock w)) = trace w @ [Reclaimed (clock w + 5050) m]
          \<and> lock_marker (snd (acquireLock w)) = Some (clock w + 5050))
       \<and> (clock w + 5050 - m \<le> 10000 \<longrightarrow>
            fst (acquireLock w) = Inl LockTimeout
          \<and> trace (snd (acquireLock w)) = trace w
          \<and> lock_marker (snd (acquireLock w)) = Some m)
       \<and> (\<exists>evs. trace (snd (acquireLock w)) = trace w @ evs
            \<and> (\<forall>t mt. Reclaimed t mt \<in> set evs \<longrightarrow>
                  t - clock w > defaultMaxWaitTime \<and> t - mt > 10000 \<and> mt = m))"
proof (cases "clock w + 5050 - m > 10000")
  case True
  then show ?thesis
    by (simp add: acquireLock_held [OF assms] defaultMaxWaitTime_def)
next
  case False
  then show ?thesis
    using assms by (simp add: acquireLock_held [OF assms])
qed

theorem acquireLock_reclaims_stale_only_after_wait_witness:
  "fst (acquireLock (quiet_world\<lparr>lock_marker := Some 0\<rparr>)) = Inr ()
   \<and> fst (acquireLock (quiet_world\<lparr>lock_marker := Some 19000\<rparr>)) = Inl LockTimeout"
  using acquireLock_reclaims_stale_only_after_wait [of "quiet_world\<lparr>lock_marker := Some 0\<rparr>" 0]
        acquireLock_reclaims_stale_only_after_wait [of "quiet_world\<lparr>lock_marker := Some 19000\<rparr>" 19000]
  by (simp add: quiet_world_def)

subsection \<open>Metadata store\<close>

lemma acquireLock_cases:
  "acquireLock w =
     (if \<not> base_writable w then (Inl FsError, w)
      else case lock_marker w of
        None \<Rightarrow> (Inr (), w\<lparr>lock_marker := Some (clock w)\<rparr>)
      | Some m \<Rightarrow>
          if clock w + 5050 - m > 10000
          then (Inr (), w\<lparr>clock := clock w + 5050, lock_marker := Some (clock w + 5050),
                          trace := trace w @ [Reclaimed (clock w + 5050) m]\<rparr>)
          else (Inl LockTimeout, w\<lparr>clock := clock w + 5050\<rparr>))"
  by (simp add: acquireLock_unwritable acquireLock_free acquireLock_held split: option.splits)

lemma acquireLock_ok:
  assumes "acquireLock w = (Inr u, w1)"
  shows "metadata_json w1 = metadata_json w" "base_writable w1" "lock_marker w1 = Some (clock w1)"
    "clock w \<le> clock w1"
  using assms by (auto simp: acquireLock_cases split: if_splits option.splits)

lemma acquireLock_err:
  assumes "acquireLock w = (Inl e, w1)"
  shows "metadata_json w1 = metadata_json w" "lock_marker w1 = lock_marker w"
  using assms by (auto simp: acquireLock_cases split: if_splits option.splits)

lemma releaseLock_simps [simp]:
  "metadata_json (releaseLock w) = metadata_json w"
  "clock (releaseLock w) = clock w"
  "lock_marker (releaseLock w) = None"
  "base_writable (releaseLock w) = base_writable w"
  by (auto simp: releaseLock_def split: option.splits)

lemma loadMetadata_releaseLock [simp]: "loadMetadata (releaseLock w) = loadMetadata w"
  by (simp add: loadMetadata_def)

lemma map_of_obj_set: "map_of (obj_set k v kvs) = (map_of kvs)(k \<mapsto> v)"
  by (induction kvs) (auto simp: fun_eq_iff)


lemma prop_get_own: "map_of kvs k = Some v \<Longrightarrow> prop_get k kvs = OwnProperty v"
  by (simp add: prop_get_def)

lemma prop_get_obj_set: "prop_get k (obj_set k v kvs) = OwnProperty v"
  by (simp add: prop_get_def map_of_obj_set)

lemma prop_get_obj_set_other: "k' \<noteq> k \<Longrightarrow> prop_get k' (obj_set k v kvs) = prop_get k' kvs"
  by (simp add: prop_get_def map_of_obj_set)


lemma prop_get_not_own_iff:
  "(\<forall>v. prop_get k kvs \<noteq> OwnProperty v) \<longleftrightarrow> map_of kvs k = None"
  by (auto simp: prop_get_def split: option.splits)





lemma fold_obj_delete:
  "fold (\<lambda>cp acc. obj_delete (fst cp) acc) ds recs = filter (\<lambda>kv. fst kv \<notin> fst ` set ds) recs"
proof (induction ds arbitrary: recs)
  case Nil
  then show ?case by simp
next
  case (Cons d ds)
  have "fold (\<lambda>cp acc. obj_delete (fst cp) acc) (d # ds) recs
      = filter (\<lambda>kv. fst kv \<notin> fst ` set ds) (obj_delete (fst d) recs)"
    by (simp add: Cons.IH)
  also have "\<dots> = filter (\<lambda>kv. fst kv \<notin> fst ` set (d # ds)) recs"
    by (auto simp: obj_delete_def intro: filter_cong)
  finally show ?case .
qed

lemma filter_keys_append:
  assumes "distinct (map fst (a @ b))"
  shows "filter (\<lambda>kv. fst kv \<notin> fst ` set b) (a @ b) = a"
proof -
  have a: "filter (\<lambda>kv. fst kv \<notin> fst ` set b) a = a"
    using assms by (auto simp: filter_id_conv)
  have b: "filter (\<lambda>kv. fst kv \<notin> fst ` set b) b = []"
    by (auto simp: filter_empty_conv)
  show ?thesis by (simp add: a b)
qed

lemma mset_sort_newest_first [simp]: "mset (sort_newest_first cps) = mset cps"
  by (simp add: sort_newest_first_def)

lemma set_sort_newest_first [simp]: "set (sort_newest_first cps) = set cps"
  by (simp add: sort_newest_first_def)

lemma length_sort_newest_first [simp]: "length (sort_newest_first cps) = length cps"
  by (simp add: sort_newest_first_def)

lemma distinct_keys_sort_newest_first:
  "distinct (map fst (sort_newest_first cps)) = distinct (map fst cps)"
proof -
  have "mset (map fst (sort_newest_first cps)) = mset (map fst cps)"
    by simp
  then show ?thesis by (rule mset_eq_imp_distinct_iff)
qed

lemma sort_newest_first_descending:
  "sorted_wrt (\<lambda>a b. timestamp (snd a) \<ge> timestamp (snd b)) (sort_newest_first cps)"
proof -
  have "sorted (map (\<lambda>cp. - int (timestamp (snd cp))) (sort_newest_first cps))"
    by (simp add: sort_newest_first_def)
  then show ?thesis
    by (simp add: sorted_wrt_map)
qed

lemma prune_keeps_newest:
  fixes recs :: ProjectRecords
  assumes d: "distinct (map fst recs)"
  shows "mset (fold (\<lambda>cp acc. obj_delete (fst cp) acc) (drop n (sort_newest_first recs)) recs)
       = mset (take n (sort_newest_first recs))"
proof -
  let ?s = "sort_newest_first recs"
  have ds: "distinct (map fst (take n ?s @ drop n ?s))"
    using d by (simp add: distinct_keys_sort_newest_first)
  have "mset (fold (\<lambda>cp acc. obj_delete (fst cp) acc) (drop n ?s) recs)
      = filter_mset (\<lambda>kv. fst kv \<notin> fst ` set (drop n ?s)) (mset recs)"
    by (simp add: fold_obj_delete)
  also have "mset recs = mset (take n ?s @ drop n ?s)"
    by simp
  also have "filter_mset (\<lambda>kv. fst kv \<notin> fst ` set (drop n ?s)) (mset (take n ?s @ drop n ?s))
      = mset (filter (\<lambda>kv. fst kv \<notin> fst ` set (drop n ?s)) (take n ?s @ drop n ?s))"
    by (simp only: mset_filter)
  also have "\<dots> = mset (take n ?s)"
    by (simp only: filter_keys_append [OF ds])
  finally show ?thesis .
qed

lemma take_drop_descending:
  assumes "x \<in> set (take n (sort_newest_first cps))" "y \<in> set (drop n (sort_newest_first cps))"
  shows "timestamp (snd y) \<le> timestamp (snd x)"
proof -
  have "sorted_wrt (\<lambda>a b. timestamp (snd a) \<ge> timestamp (snd b))
          (take n (sort_newest_first cps) @ drop n (sort_newest_first cps))"
    using sort_newest_first_descending [of cps] by simp
  then show ?thesis using assms unfolding sorted_wrt_append by blast
qed

lemma cleanupOldMetadata_result:
  assumes "fst (cleanupOldMetadata project keepCount w) = Inr ()"
  shows "project_records project (snd (cleanupOldMetadata project keepCount w)) =
     (let recs = project_records project w; s = sort_newest_first recs in
      if length s > keepCount
      then fold (\<lambda>cp acc. obj_delete (fst cp) acc) (drop keepCount s) recs
      else recs)"
proof (cases "acquireLock w")
  case (Pair res w1)
  show ?thesis
  proof (cases res)
    case (Inl e)
    with Pair assms show ?thesis by (simp add: cleanupOldMetadata_def)
  next
    case (Inr u)
    with Pair have ok: "acquireLock w = (Inr u, w1)" by simp
    note w1 = acquireLock_ok [OF ok]
    have lm: "loadMetadata w1 = loadMetadata w" using w1(1) by (simp add: loadMetadata_def)
    show ?thesis
      using ok w1(2) lm
      by (auto simp: cleanupOldMetadata_def project_records_def Let_def saveMetadata_def
            loadMetadata_def split: option.splits)
  qed
qed

text \<open>
  Claim C6. When \<open>cleanupOldMetadata\<close> returns (the keys of the project's records being
  distinct, as the keys of an object are), the project is left with exactly
  \<open>min keepCount n\<close> of its \<open>n\<close> records, all of them records it had before, and
  every record kept is at least as recent as every record discarded.
\<close>

theorem cleanupOldMetadata_keeps_newest:
  assumes ok: "fst (cleanupOldMetadata project keepCount w) = Inr ()"
    and d: "distinct (map fst (project_records project w))"
  shows "length (project_records project (snd (cleanupOldMetadata project keepCount w)))
           = min keepCount (length (project_records project w))
       \<and> mset (project_records project (snd (cleanupOldMetadata project keepCount w)))
           \<subseteq># mset (project_records project w)
       \<and> (\<forall>kept \<in> set (project_records project (snd (cleanupOldMetadata project keepCount w))).
          \<forall>dropped \<in> set (project_records project w)
                      - set (project_records project (snd (cleanupOldMetadata project keepCount w))).
            timestamp (snd dropped) \<le> timestamp (snd kept))"
proof -
  let ?recs = "project_records project w"
  let ?s = "sort_newest_first ?recs"
  let ?after = "project_records project (snd (cleanupOldMetadata project keepCount w))"
  show ?thesis
  proof (cases "length ?s > keepCount")
    case False
    then have "?after = ?recs"
      using cleanupOldMetadata_result [OF ok] by (simp add: Let_def)
    with False show ?thesis by simp
  next
    case True
    then have after: "?after = fold (\<lambda>cp acc. obj_delete (fst cp) acc) (drop keepCount ?s) ?recs"
      using cleanupOldMetadata_result [OF ok] by (simp add: Let_def)
    have m: "mset ?after = mset (take keepCount ?s)"
      unfolding after using prune_keeps_newest [OF d] by simp
    have len: "length ?after = min keepCount (length ?recs)"
      using arg_cong [OF m, of size] by (simp add: min_def)
    have "mset (take keepCount ?s) \<subseteq># mset (take keepCount ?s @ drop keepCount ?s)"
      unfolding mset_append by (rule mset_subset_eq_add_left)
    then have sub: "mset ?after \<subseteq># mset ?recs"
      using m by simp
    have setafter: "set ?after = set (take keepCount ?s)"
      using arg_cong [OF m, of set_mset] by simp
    have recent: "timestamp (snd dropped) \<le> timestamp (snd kept)"
      if k: "kept \<in> set ?after" and dr: "dropped \<in> set ?recs - set ?after" for kept dropped
    proof -
      have "set ?recs = set (take keepCount ?s) \<union> set (drop keepCount ?s)"
        by (metis append_take_drop_id set_append set_sort_newest_first)
      with dr setafter have "dropped \<in> set (drop keepCount ?s)" by auto
      moreover from k setafter have "kept \<in> set (take keepCount ?s)" by simp
      ultimately show ?thesis by (rule take_drop_descending [rotated])
    qed
    from len sub recent show ?thesis by blast
  qed
qed


theorem cleanupOldMetadata_keeps_newest_witness:
  "length (project_records ''p'' (snd (cleanupOldMetadata ''p'' 1
      (quiet_world\<lparr>metadata_json := Doc [''p'' \<mapsto>
         [(''aa'', \<lparr>timestamp = 5, tool_name = ''Write'', tool_input = empty_ToolInput,
                   session_id = ''s'', status = Pending, files_affected = [],
                   status_updated = None, tool_response = None\<rparr>),
          (''bb'', \<lparr>timestamp = 9, tool_name = ''Edit'', tool_input = empty_ToolInput,
                   session_id = ''s'', status = Pending, files_affected = [],
                   status_updated = None, tool_response = None\<rparr>)]]\<rparr>)))) = 1"
proof -
  let ?w = "quiet_world\<lparr>metadata_json := Doc [''p'' \<mapsto>
         [(''aa'', \<lparr>timestamp = 5, tool_name = ''Write'', tool_input = empty_ToolInput,
                   session_id = ''s'', status = Pending, files_affected = [],
                   status_updated = None, tool_response = None\<rparr>),
          (''bb'', \<lparr>timestamp = 9, tool_name = ''Edit'', tool_input = empty_ToolInput,
                   session_id = ''s'', status = Pending, files_affected = [],
                   status_updated = None, tool_response = None\<rparr>)]]\<rparr>"
  have ok: "fst (cleanupOldMetadata ''p'' 1 ?w) = Inr ()"
    by (simp add: cleanupOldMetadata_def acquireLock_free quiet_world_def saveMetadata_def
          loadMetadata_def Let_def sort_newest_first_def)
  have d: "distinct (map fst (project_records ''p'' ?w))"
    by (simp add: project_records_def loadMetadata_def)
  from cleanupOldMetadata_keeps_newest [OF ok d] show ?thesis
    by (simp add: project_records_def [of "''p''" ?w] loadMetadata_def)
qed

lemma updateCheckpointStatus_locked_out:
  assumes "fst (acquireLock w) = Inl e"
  shows "fst (updateCheckpointStatus project hash st resp w) = Inl e"
    and "metadata_json (snd (updateCheckpointStatus project hash st resp w)) = metadata_json w"
  using assms acquireLock_err [of w e "snd (acquireLock w)"]
  by (cases "acquireLock w"; simp add: updateCheckpointStatus_def)+

lemma loadMetadata_Doc:
  "loadMetadata w project = Some recs \<Longrightarrow> metadata_json w = Doc (loadMetadata w)"
  by (cases "metadata_json w") (simp_all add: loadMetadata_def)

lemma updateCheckpointStatus_acquired:
  assumes ok: "acquireLock w = (Inr u, w1)"
  shows "updateCheckpointStatus project hash st resp w =
     (case getCheckpointMetadata project hash w of
        NoProperty \<Rightarrow> (Inr (), releaseLock w1)
      | InheritedMember m \<Rightarrow> (Inr (), releaseLock (w1\<lparr>metadata_json := metadata_json w\<rparr>))
      | OwnProperty r \<Rightarrow>
          (Inr (), releaseLock (w1\<lparr>metadata_json := Doc ((loadMetadata w)(project \<mapsto>
             obj_set hash
               (r\<lparr>status := st, status_updated := Some (clock w1),
                  tool_response := (case resp of None \<Rightarrow> tool_response r | Some x \<Rightarrow> Some x)\<rparr>)
               (project_records project w)))\<rparr>)))"
proof -
  note w1 = acquireLock_ok [OF ok]
  have lm: "loadMetadata w1 = loadMetadata w" using w1(1) by (simp add: loadMetadata_def)
  show ?thesis
  proof (cases "loadMetadata w project")
    case None
    with ok lm show ?thesis
      by (simp add: updateCheckpointStatus_def getCheckpointMetadata_def Let_def)
  next
    case (Some recs)
    note doc = loadMetadata_Doc [OF Some]
    show ?thesis
    proof (cases "prop_get hash recs")
      case NoProperty
      with ok lm Some show ?thesis
        by (simp add: updateCheckpointStatus_def getCheckpointMetadata_def Let_def)
    next
      case (OwnProperty r)
      with ok lm Some w1(2) show ?thesis
        by (cases resp)
           (simp_all add: updateCheckpointStatus_def getCheckpointMetadata_def Let_def
              saveMetadata_def project_records_def)
    next
      case (InheritedMember m)
      with ok lm Some w1(2) doc show ?thesis
        by (simp add: updateCheckpointStatus_def getCheckpointMetadata_def Let_def
              saveMetadata_def)
    qed
  qed
qed

lemma updateCheckpointStatus_missing:
  assumes "\<forall>r. getCheckpointMetadata project hash w \<noteq> OwnProperty r"
  shows "metadata_json (snd (updateCheckpointStatus project hash st resp w)) = metadata_json w"
proof (cases "acquireLock w")
  case (Pair res w1)
  show ?thesis
  proof (cases res)
    case (Inl e)
    with Pair show ?thesis using updateCheckpointStatus_locked_out(2) [of w e] by simp
  next
    case (Inr u)
    with Pair have ok: "acquireLock w = (Inr u, w1)" by simp
    note w1 = acquireLock_ok [OF ok]
    show ?thesis using assms w1(1)
      by (cases "getCheckpointMetadata project hash w")
         (simp_all add: updateCheckpointStatus_acquired [OF ok])
  qed
qed

lemma updateCheckpointStatus_clock:
  assumes "lock_marker w = None"
  shows "clock (snd (updateCheckpointStatus project hash st resp w)) = clock w"
proof (cases "base_writable w")
  case True
  from updateCheckpointStatus_acquired [OF acquireLock_free [OF True assms], of project hash st resp]
  show ?thesis by (simp split: property.splits)
next
  case False
  then show ?thesis by (simp add: updateCheckpointStatus_def acquireLock_unwritable)
qed

text \<open>
  Claim C5. \<open>updateCheckpointStatus\<close> takes the lock before it looks for the record.
  Once the lock is acquired the call returns without raising: on a key that is not in
  the store it leaves the persisted document as it was; on an existing key it sets the
  record's status and \<open>status_updated\<close>, and \<open>tool_response\<close> when one is given; and
  every record under another key reads as before.
\<close>

theorem updateCheckpointStatus_under_lock:
  assumes "fst (acquireLock w) = Inr ()"
  shows "fst (updateCheckpointStatus project hash st resp w) = Inr ()
       \<and> ((\<forall>r. getCheckpointMetadata project hash w \<noteq> OwnProperty r) \<longrightarrow>
            metadata_json (snd (updateCheckpointStatus project hash st resp w)) = metadata_json w)
       \<and> (\<forall>r. getCheckpointMetadata project hash w = OwnProperty r \<longrightarrow>
            getCheckpointMetadata project hash (snd (updateCheckpointStatus project hash st resp w))
              = OwnProperty (r\<lparr>status := st,
                       status_updated := Some (clock (snd (updateCheckpointStatus project hash st resp w))),
                       tool_response := (case resp of None \<Rightarrow> tool_response r | Some x \<Rightarrow> Some x)\<rparr>))
       \<and> (\<forall>project' hash'. (project', hash') \<noteq> (project, hash) \<longrightarrow>
            getCheckpointMetadata project' hash' (snd (updateCheckpointStatus project hash st resp w))
              = getCheckpointMetadata project' hash' w)"
proof -
  obtain w1 where ok: "acquireLock w = (Inr (), w1)"
    using assms by (cases "acquireLock w") auto
  note w1 = acquireLock_ok [OF ok]
  note upd = updateCheckpointStatus_acquired [OF ok, of project hash st resp]
  show ?thesis
  proof (cases "getCheckpointMetadata project hash w")
    case NoProperty
    with upd w1(1) show ?thesis
      by (simp add: getCheckpointMetadata_def loadMetadata_def)
  next
    case (InheritedMember m)
    with upd w1(1) show ?thesis
      by (simp add: getCheckpointMetadata_def loadMetadata_def)
  next
    case (OwnProperty r)
    with upd show ?thesis
      by (auto simp: getCheckpointMetadata_def loadMetadata_def prop_get_obj_set
            prop_get_obj_set_other project_records_def split: option.splits)
  qed
qed

theorem updateCheckpointStatus_under_lock_witness:
  "fst (updateCheckpointStatus ''0a1b2c3d4e5f'' ''zz'' Success None recorded_world) = Inr ()
   \<and> metadata_json (snd (updateCheckpointStatus ''0a1b2c3d4e5f'' ''zz'' Success None recorded_world))
       = metadata_json recorded_world
   \<and> getCheckpointMetadata ''0a1b2c3d4e5f'' ''aa''
         (snd (updateCheckpointStatus ''0a1b2c3d4e5f'' ''aa'' Failed
                 (Some \<lparr>success = Some (JBool False), error = Some ''denied''\<rparr>) recorded_world))
       = OwnProperty ((record_at 5 ''Write'' ''s1'')\<lparr>status := Failed, status_updated := Some 20000,
                 tool_response := Some \<lparr>success = Some (JBool False), error = Some ''denied''\<rparr>\<rparr>)"
proof -
  have l: "fst (acquireLock recorded_world) = Inr ()"
    by (simp add: acquireLock_free recorded_world_def quiet_world_def)
  have m: "getCheckpointMetadata ''0a1b2c3d4e5f'' ''zz'' recorded_world = NoProperty"
    by (simp add: getCheckpointMetadata_def loadMetadata_def recorded_world_def quiet_world_def
          prop_get_def object_prototype_members_def)
  have e: "getCheckpointMetadata ''0a1b2c3d4e5f'' ''aa'' recorded_world
             = OwnProperty (record_at 5 ''Write'' ''s1'')"
    by (simp add: getCheckpointMetadata_def loadMetadata_def recorded_world_def quiet_world_def
          prop_get_def)
  have c: "clock (snd (updateCheckpointStatus ''0a1b2c3d4e5f'' ''aa'' Failed
                 (Some \<lparr>success = Some (JBool False), error = Some ''denied''\<rparr>) recorded_world)) = 20000"
    using updateCheckpointStatus_clock [of recorded_world]
    by (simp add: recorded_world_def quiet_world_def)
  from updateCheckpointStatus_under_lock [OF l, of "''0a1b2c3d4e5f''" "''zz''" Success None]
       updateCheckpointStatus_under_lock [OF l, of "''0a1b2c3d4e5f''" "''aa''" Failed
          "Some \<lparr>success = Some (JBool False), error = Some ''denied''\<rparr>"]
       m e c
  show ?thesis by simp
qed

text \<open>
  When another holder's marker stays fresh for the whole wait, the call on a key that is
  not in the store raises the lock-timeout error: a missing key alone does not make the
  call return.
\<close>

theorem updateCheckpointStatus_missing_key_raises_when_locked:
  "getCheckpointMetadata ''p'' ''aa'' held_world = NoProperty
   \<and> fst (updateCheckpointStatus ''p'' ''aa'' Success None held_world) = Inl LockTimeout"
proof -
  have "fst (acquireLock held_world) = Inl LockTimeout"
    by (simp add: acquireLock_cases held_world_def quiet_world_def)
  then show ?thesis
    using updateCheckpointStatus_locked_out(1) [of held_world LockTimeout]
    by (simp add: getCheckpointMetadata_def loadMetadata_def held_world_def quiet_world_def)
qed

subsection \<open>The after-mutation handler\<close>

lemma loadConfig_preserves [simp]:
  "metadata_json (snd (loadConfig w)) = metadata_json w"
  "cwd (snd (loadConfig w)) = cwd w"
  "homedir (snd (loadConfig w)) = homedir w"
  "lock_marker (snd (loadConfig w)) = lock_marker w"
  "base_writable (snd (loadConfig w)) = base_writable w"
  "clock (snd (loadConfig w)) = clock w"
  "trace (snd (loadConfig w)) = trace w"
  "git_engine (snd (loadConfig w)) = git_engine w"
  "paths (snd (loadConfig w)) = paths w"
  "copy_ok (snd (loadConfig w)) = copy_ok w"
  "file_stat (snd (loadConfig w)) = file_stat w"
  by (simp_all add: loadConfig_def saveConfig_def split: config_file.splits)

lemma current_project_cong:
  "cwd w1 = cwd w \<Longrightarrow> homedir w1 = homedir w \<Longrightarrow> current_project sha w1 = current_project sha w"
  by (simp add: current_project_def new_GitCheckpointManager_def hookDir_def Let_def)

lemma loadMetadata_cong:
  "metadata_json w1 = metadata_json w \<Longrightarrow> loadMetadata w1 = loadMetadata w"
  by (simp add: loadMetadata_def)

lemma store_reads_cong:
  assumes "metadata_json w1 = metadata_json w"
  shows "listProjectCheckpoints p w1 = listProjectCheckpoints p w"
    and "project_records p w1 = project_records p w"
    and "getCheckpointMetadata p h w1 = getCheckpointMetadata p h w"
  using loadMetadata_cong [OF assms]
  by (simp_all add: listProjectCheckpoints_def project_records_def getCheckpointMetadata_def)

lemma listProjectCheckpoints_sorted:
  "listProjectCheckpoints p w = sort_newest_first (project_records p w)"
  by (simp add: listProjectCheckpoints_def project_records_def sort_newest_first_def
        split: option.splits)

lemma handlePostToolUse_unfold:
  assumes en: "enabled (fst (loadConfig w))"
    and tool: "or_empty (hi_tool_name ev) \<in> set [''Write'', ''Edit'', ''MultiEdit'']"
  shows "handlePostToolUse sha ev w =
     (case listProjectCheckpoints (current_project sha w) w of
        [] \<Rightarrow> (Inr 0, snd (loadConfig w))
      | latest # _ \<Rightarrow>
          (case updateCheckpointStatus (current_project sha w) (fst latest)
                  (if success (case hi_tool_response ev of None \<Rightarrow> empty_ToolResponse | Some r \<Rightarrow> r)
                        \<noteq> Some (JBool False) then Success else Failed)
                  (Some (case hi_tool_response ev of None \<Rightarrow> empty_ToolResponse | Some r \<Rightarrow> r))
                  (snd (loadConfig w)) of
             (Inl e, w1) \<Rightarrow> (Inl e, w1)
           | (Inr u, w1) \<Rightarrow> (Inr 0, w1)))"
proof -
  obtain config w1 where lc: "loadConfig w = (config, w1)" by (cases "loadConfig w")
  have w1: "w1 = snd (loadConfig w)" using lc by simp
  have cp: "current_project sha w1 = current_project sha w"
    unfolding w1 by (rule current_project_cong) simp_all
  have lp: "listProjectCheckpoints p w1 = listProjectCheckpoints p w" for p
    unfolding w1 by (rule store_reads_cong(1)) simp
  have cp': "projectHash (new_GitCheckpointManager sha (cwd w1) None w1) = current_project sha w"
    using cp by (simp add: current_project_def)
  have en': "enabled config" using en lc by simp
  show ?thesis
    using en' tool
    by (simp add: handlePostToolUse_def Let_def lc cp' lp del: set_simps split: list.splits)
qed

lemma map_of_distinct_member:
  "distinct (map fst kvs) \<Longrightarrow> (k, v) \<in> set kvs \<Longrightarrow> map_of kvs k = Some v"
  by simp

text \<open>
  Claim C10. For an after-mutation event whose tool is Write, Edit or MultiEdit, with
  the hook enabled and at least one checkpoint recorded for the project, a handler that
  returns has updated the first entry of the newest-first listing: a record of the
  project that no other record is more recent than, whatever tool and session created
  it. The status written is \<open>Failed\<close> exactly when the \<open>success\<close> field of the
  response is the boolean \<open>false\<close>, and \<open>Success\<close> when the field is missing or has
  any other value; the response is attached, and no record under another key changes.
\<close>

theorem handlePostToolUse_marks_latest:
  assumes en: "enabled (fst (loadConfig w))"
    and tool: "or_empty (hi_tool_name ev) \<in> set [''Write'', ''Edit'', ''MultiEdit'']"
    and ne: "project_records (current_project sha w) w \<noteq> []"
    and d: "distinct (map fst (project_records (current_project sha w) w))"
    and ret: "fst (handlePostToolUse sha ev w) = Inr 0"
  shows "let P = current_project sha w;
             latest = hd (listProjectCheckpoints P w);
             resp = (case hi_tool_response ev of None \<Rightarrow> empty_ToolResponse | Some r \<Rightarrow> r);
             w' = snd (handlePostToolUse sha ev w)
         in latest \<in> set (project_records P w)
          \<and> (\<forall>x \<in> set (project_records P w). timestamp (snd x) \<le> timestamp (snd latest))
          \<and> getCheckpointMetadata P (fst latest) w'
              = OwnProperty ((snd latest)\<lparr>status := (if success resp = Some (JBool False) then Failed else Success),
                        status_updated := Some (clock w'), tool_response := Some resp\<rparr>)
          \<and> (\<forall>p h. (p, h) \<noteq> (P, fst latest) \<longrightarrow>
                getCheckpointMetadata p h w' = getCheckpointMetadata p h w)"
proof -
  let ?P = "current_project sha w"
  let ?resp = "case hi_tool_response ev of None \<Rightarrow> empty_ToolResponse | Some r \<Rightarrow> r"
  define st where "st = (if success ?resp \<noteq> Some (JBool False) then Success else Failed)"
  let ?w1 = "snd (loadConfig w)"
  let ?l = "listProjectCheckpoints ?P w"
  have ls: "?l = sort_newest_first (project_records ?P w)"
    by (rule listProjectCheckpoints_sorted)
  with ne have lne: "?l \<noteq> []"
    by (metis length_0_conv length_sort_newest_first)
  then obtain latest rest where l: "?l = latest # rest" by (cases ?l) auto
  have mem: "latest \<in> set (project_records ?P w)"
    using l ls by (metis list.set_intros(1) set_sort_newest_first)
  have newest: "timestamp (snd x) \<le> timestamp (snd latest)" if "x \<in> set (project_records ?P w)" for x
  proof -
    have "sorted_wrt (\<lambda>a b. timestamp (snd a) \<ge> timestamp (snd b)) (latest # rest)"
      using sort_newest_first_descending [of "project_records ?P w"] l ls by simp
    moreover have "x = latest \<or> x \<in> set rest"
      using that l ls by (metis set_ConsD set_sort_newest_first)
    ultimately show ?thesis by auto
  qed
  have get: "getCheckpointMetadata ?P (fst latest) w = OwnProperty (snd latest)"
    using map_of_distinct_member [OF d, of "fst latest" "snd latest"] mem ne
    by (auto simp: getCheckpointMetadata_def project_records_def prop_get_def
          split: option.splits)
  have get1: "getCheckpointMetadata p h ?w1 = getCheckpointMetadata p h w" for p h
    by (rule store_reads_cong(3)) simp
  have pr1: "project_records ?P ?w1 = project_records ?P w"
    by (rule store_reads_cong(2)) simp
  have lm1: "loadMetadata ?w1 = loadMetadata w"
    by (rule loadMetadata_cong) simp
  have hp: "handlePostToolUse sha ev w =
      (case updateCheckpointStatus ?P (fst latest) st (Some ?resp) ?w1 of
         (Inl e, w1) \<Rightarrow> (Inl e, w1) | (Inr u, w1) \<Rightarrow> (Inr 0, w1))"
    unfolding handlePostToolUse_unfold [OF en tool, of sha] l st_def by simp
  obtain res w2 where al: "acquireLock ?w1 = (res, w2)" by (cases "acquireLock ?w1")
  have "\<exists>u. res = Inr u"
  proof (cases res)
    case (Inl e)
    with al have "fst (acquireLock ?w1) = Inl e" by simp
    from updateCheckpointStatus_locked_out(1) [OF this, of ?P "fst latest" st "Some ?resp"]
    have "fst (handlePostToolUse sha ev w) = Inl e"
      unfolding hp by (cases "updateCheckpointStatus ?P (fst latest) st (Some ?resp) ?w1") simp
    with ret show ?thesis by simp
  qed simp
  then obtain u where ok: "acquireLock ?w1 = (Inr u, w2)" using al by auto
  note upd = updateCheckpointStatus_acquired [OF ok, of ?P "fst latest" st "Some ?resp",
               unfolded get1 get pr1 lm1 property.case]
  have w': "snd (handlePostToolUse sha ev w) =
      releaseLock (w2\<lparr>metadata_json := Doc ((loadMetadata w)(?P \<mapsto>
             obj_set (fst latest)
               ((snd latest)\<lparr>status := st, status_updated := Some (clock w2),
                  tool_response := Some ?resp\<rparr>)
               (project_records ?P w)))\<rparr>)"
    unfolding hp upd by simp
  have c: "clock (snd (handlePostToolUse sha ev w)) = clock w2"
    unfolding w' by simp
  have st': "st = (if success ?resp = Some (JBool False) then Failed else Success)"
    by (simp add: st_def)
  have g: "getCheckpointMetadata ?P (fst latest) (snd (handlePostToolUse sha ev w))
      = OwnProperty ((snd latest)\<lparr>status := st,
                status_updated := Some (clock (snd (handlePostToolUse sha ev w))),
                tool_response := Some ?resp\<rparr>)"
    unfolding c unfolding w'
    by (simp add: getCheckpointMetadata_def loadMetadata_def prop_get_obj_set)
  have o: "getCheckpointMetadata p h (snd (handlePostToolUse sha ev w)) = getCheckpointMetadata p h w"
    if "(p, h) \<noteq> (?P, fst latest)" for p h
    using that ne unfolding w'
    by (auto simp: getCheckpointMetadata_def loadMetadata_def prop_get_obj_set_other
          project_records_def split: option.splits metadata_file.splits)
  from mem newest g [unfolded st'] o show ?thesis
    unfolding Let_def l list.sel by blast
qed

lemma handlePostToolUse_free:
  assumes en: "enabled (fst (loadConfig w))"
    and tool: "or_empty (hi_tool_name ev) \<in> set [''Write'', ''Edit'', ''MultiEdit'']"
    and free: "base_writable w" "lock_marker w = None"
  shows "fst (handlePostToolUse sha ev w) = Inr 0"
    and "clock (snd (handlePostToolUse sha ev w)) = clock w"
proof -
  let ?w1 = "snd (loadConfig w)"
  have al: "acquireLock ?w1 = (Inr (), ?w1\<lparr>lock_marker := Some (clock ?w1)\<rparr>)"
    by (rule acquireLock_free) (simp_all add: free)
  note upd = updateCheckpointStatus_acquired [OF al]
  show "fst (handlePostToolUse sha ev w) = Inr 0"
    unfolding handlePostToolUse_unfold [OF en tool] upd
    by (simp split: list.splits property.splits)
  show "clock (snd (handlePostToolUse sha ev w)) = clock w"
    unfolding handlePostToolUse_unfold [OF en tool] upd
    by (simp split: list.splits property.splits)
qed

theorem handlePostToolUse_marks_latest_witness:
  "getCheckpointMetadata ''0a1b2c3d4e5f'' ''bb''
     (snd (handlePostToolUse sha_example
        \<lparr>hi_tool_name = Some ''Edit'', hi_tool_input = None, hi_session_id = Some ''s3'',
         hi_tool_response = Some \<lparr>success = Some (JBool False), error = None\<rparr>\<rparr> recorded_world))
   = OwnProperty ((record_at 9 ''Manual'' ''s2'')\<lparr>status := Failed, status_updated := Some 20000,
             tool_response := Some \<lparr>success = Some (JBool False), error = None\<rparr>\<rparr>)"
proof -
  let ?ev = "\<lparr>hi_tool_name = Some ''Edit'', hi_tool_input = None, hi_session_id = Some ''s3'',
         hi_tool_response = Some \<lparr>success = Some (JBool False), error = None\<rparr>\<rparr>"
  have en: "enabled (fst (loadConfig recorded_world))"
    by (simp add: loadConfig_def recorded_world_def quiet_world_def getDefaultConfig_def)
  have tool: "or_empty (hi_tool_name ?ev) \<in> set [''Write'', ''Edit'', ''MultiEdit'']"
    by (simp add: or_empty_def)
  have free: "base_writable recorded_world" "lock_marker recorded_world = None"
    by (simp_all add: recorded_world_def quiet_world_def)
  have P: "current_project sha_example recorded_world = ''0a1b2c3d4e5f''"
    by (simp add: current_project_def new_GitCheckpointManager_def Let_def sha_example_def)
  have recs: "project_records ''0a1b2c3d4e5f'' recorded_world =
      [(''aa'', record_at 5 ''Write'' ''s1''), (''bb'', record_at 9 ''Manual'' ''s2'')]"
    by (simp add: project_records_def loadMetadata_def recorded_world_def quiet_world_def)
  have l: "listProjectCheckpoints ''0a1b2c3d4e5f'' recorded_world =
      [(''bb'', record_at 9 ''Manual'' ''s2''), (''aa'', record_at 5 ''Write'' ''s1'')]"
    unfolding listProjectCheckpoints_sorted recs
    by (simp add: sort_newest_first_def record_at_def)
  have ne: "project_records (current_project sha_example recorded_world) recorded_world \<noteq> []"
    unfolding P recs by simp
  have d: "distinct (map fst (project_records (current_project sha_example recorded_world) recorded_world))"
    unfolding P recs by simp
  note ret = handlePostToolUse_free [OF en tool free, of sha_example]
  from handlePostToolUse_marks_latest [OF en tool ne d ret(1)]
  show ?thesis
    unfolding Let_def P l ret(2) by (simp add: recorded_world_def quiet_world_def)
qed

subsection \<open>Listing checkpoints\<close>

lemma path_normalize_nonempty: "path_normalize p \<noteq> []"
  by (auto simp: path_normalize_def Let_def)

lemma path_join_nonempty: "path_join args \<noteq> []"
  by (simp add: path_join_def Let_def path_normalize_nonempty)

lemma runGit_in_worktree:
  "runGit mgr args (Some (worktreePath mgr)) w =
     (git_engine w (trace w) (''git '' @ join_with '' '' args) (worktreePath mgr),
      w\<lparr>trace := trace w @ [Git (''git '' @ join_with '' '' args) (worktreePath mgr)]\<rparr>)"
  by (simp add: runGit_def Let_def worktreePath_def path_join_nonempty)

lemma engine_ignores_query_list:
  assumes "engine_ignores_queries w" "list_all is_query qs"
  shows "git_engine w (tr @ qs) = git_engine w tr"
  using assms(2)
proof (induction qs rule: rev_induct)
  case Nil
  then show ?case by simp
next
  case (snoc q qs)
  have step: "is_query e \<Longrightarrow> git_engine w (tr' @ [e]) = git_engine w tr'" for tr' e
    using assms(1) by (simp add: engine_ignores_queries_def)
  have "git_engine w ((tr @ qs) @ [q]) = git_engine w (tr @ qs)"
    by (rule step) (use snoc.prems in simp)
  with snoc show ?case by simp
qed

lemma listCheckpoints_loop_filter:
  assumes ig: "engine_ignores_queries w0"
  shows "git_engine w = git_engine w0 \<Longrightarrow> trace w = trace w0 @ qs \<Longrightarrow> list_all is_query qs \<Longrightarrow>
     map (\<lambda>c. (ck_hash c, ck_timestamp c)) (fst (listCheckpoints_loop mgr cps w))
       = map (\<lambda>cp. (fst cp, timestamp (snd cp))) (filter (\<lambda>cp. resolves mgr w0 (fst cp)) cps)"
proof (induction cps arbitrary: w qs)
  case Nil
  then show ?case by simp
next
  case (Cons cp cps)
  let ?wt = "worktreePath mgr"
  let ?q1 = "Git (''git rev-parse '' @ fst cp) ?wt"
  let ?q2 = "Git (''git log -1 --pretty=format:%s '' @ fst cp) ?wt"
  let ?w1 = "w\<lparr>trace := trace w @ [?q1]\<rparr>"
  let ?w2 = "?w1\<lparr>trace := trace ?w1 @ [?q2]\<rparr>"
  have q: "is_query ?q1" "is_query ?q2" by simp_all
  have e: "git_engine w (trace w) = git_engine w0 (trace w0)"
    using engine_ignores_query_list [OF ig Cons.prems(3), of "trace w0"] Cons.prems(1,2) by simp
  have r: "(returncode (git_engine w (trace w) (''git rev-parse '' @ fst cp) ?wt) = 0)
      = resolves mgr w0 (fst cp)"
    by (simp add: resolves_def e)
  have ih1: "map (\<lambda>c. (ck_hash c, ck_timestamp c)) (fst (listCheckpoints_loop mgr cps ?w1))
       = map (\<lambda>cp. (fst cp, timestamp (snd cp))) (filter (\<lambda>cp. resolves mgr w0 (fst cp)) cps)"
    by (rule Cons.IH [of ?w1 "qs @ [?q1]"]) (use Cons.prems q in simp_all)
  have ih2: "map (\<lambda>c. (ck_hash c, ck_timestamp c)) (fst (listCheckpoints_loop mgr cps ?w2))
       = map (\<lambda>cp. (fst cp, timestamp (snd cp))) (filter (\<lambda>cp. resolves mgr w0 (fst cp)) cps)"
    by (rule Cons.IH [of ?w2 "qs @ [?q1, ?q2]"]) (use Cons.prems q in simp_all)
  show ?case
  proof (cases "resolves mgr w0 (fst cp)")
    case True
    then show ?thesis
      using r ih2
      by (simp add: runGit_in_worktree Let_def case_prod_beta)
  next
    case False
    then show ?thesis
      using r ih1
      by (simp add: runGit_in_worktree Let_def case_prod_beta)
  qed
qed

text \<open>
  Claim C7. \<open>listProjectCheckpoints\<close> returns every record the store holds for the
  project, each once, in order of descending timestamp, equal timestamps allowed; it
  does not consult the shadow history. The check against the history is made by
  \<open>listCheckpoints\<close>: when the shadow repository exists (and the engine's answers do
  not depend on the queries already run) it returns, in the same order, exactly the
  listed checkpoints whose hash resolves.
\<close>

theorem listing_newest_first_and_resolvable:
  assumes "engine_ignores_queries w"
  shows "mset (listProjectCheckpoints project w) = mset (project_records project w)
       \<and> sorted_wrt (\<lambda>a b. timestamp (snd a) \<ge> timestamp (snd b)) (listProjectCheckpoints project w)
       \<and> (checkpointRepo mgr \<in> paths w \<longrightarrow>
            map (\<lambda>c. (ck_hash c, ck_timestamp c)) (fst (listCheckpoints mgr w))
              = map (\<lambda>cp. (fst cp, timestamp (snd cp)))
                  (filter (\<lambda>cp. resolves mgr w (fst cp))
                     (listProjectCheckpoints (projectHash mgr) w)))"
proof -
  have "map (\<lambda>c. (ck_hash c, ck_timestamp c))
          (fst (listCheckpoints_loop mgr (listProjectCheckpoints (projectHash mgr) w) w))
      = map (\<lambda>cp. (fst cp, timestamp (snd cp)))
          (filter (\<lambda>cp. resolves mgr w (fst cp)) (listProjectCheckpoints (projectHash mgr) w))"
    by (rule listCheckpoints_loop_filter [OF assms, of w "[]"]) simp_all
  then show ?thesis
    by (simp add: listProjectCheckpoints_sorted sort_newest_first_descending listCheckpoints_def)
qed

lemma example_manager_project [simp]: "projectHash example_manager = ''0a1b2c3d4e5f''"
  by (simp add: example_manager_def new_GitCheckpointManager_def Let_def sha_example_def)

theorem listing_newest_first_and_resolvable_witness:
  "map (\<lambda>c. (ck_hash c, ck_timestamp c)) (fst (listCheckpoints example_manager pruned_world))
     = [(''bb'', 9)]"
proof -
  have ig: "engine_ignores_queries pruned_world"
    by (simp add: engine_ignores_queries_def pruned_world_def fun_eq_iff engine_knows_def)
  have inp: "checkpointRepo example_manager \<in> paths pruned_world"
    by (simp add: pruned_world_def)
  have l: "listProjectCheckpoints ''0a1b2c3d4e5f'' pruned_world =
      [(''bb'', record_at 9 ''Manual'' ''s2''), (''aa'', record_at 5 ''Write'' ''s1'')]"
    by (simp add: listProjectCheckpoints_def loadMetadata_def pruned_world_def recorded_world_def
          quiet_world_def sort_newest_first_def record_at_def)
  have r: "resolves example_manager pruned_world ''bb''" "\<not> resolves example_manager pruned_world ''aa''"
    by (simp_all add: resolves_def pruned_world_def engine_knows_def)
  from listing_newest_first_and_resolvable [OF ig, of "''0a1b2c3d4e5f''" example_manager] inp
  show ?thesis
    by (simp add: l r record_at_def)
qed

text \<open>
  With two checkpoints recorded at the same instant and a shadow history in which
  neither hash resolves, \<open>listProjectCheckpoints\<close> still returns both, and their
  timestamps do not strictly descend.
\<close>

theorem listProjectCheckpoints_unresolvable_and_tied:
  "listProjectCheckpoints ''0a1b2c3d4e5f'' tied_world
     = [(''aa'', record_at 7 ''Write'' ''s1''), (''bb'', record_at 7 ''Edit'' ''s1'')]
   \<and> \<not> resolves example_manager tied_world ''aa''
   \<and> \<not> resolves example_manager tied_world ''bb''
   \<and> \<not> sorted_wrt (\<lambda>a b. timestamp (snd a) > timestamp (snd b))
         (listProjectCheckpoints ''0a1b2c3d4e5f'' tied_world)"
proof -
  have l: "listProjectCheckpoints ''0a1b2c3d4e5f'' tied_world
     = [(''aa'', record_at 7 ''Write'' ''s1''), (''bb'', record_at 7 ''Edit'' ''s1'')]"
    by (simp add: listProjectCheckpoints_def loadMetadata_def tied_world_def
          quiet_world_def sort_newest_first_def record_at_def)
  have r: "\<not> resolves example_manager tied_world ''aa''" "\<not> resolves example_manager tied_world ''bb''"
    by (simp_all add: resolves_def tied_world_def engine_fail_def)
  show ?thesis unfolding l using r by (simp add: record_at_def)
qed

subsection \<open>The before-mutation handler\<close>

lemma runGit_world:
  "snd (runGit mgr args d w) =
     w\<lparr>trace := trace w @ [Git (''git '' @ join_with '' '' args)
                               (if truthy_str d then the d else projectPath mgr)]\<rparr>"
  by (simp add: runGit_def Let_def)

lemma runGit_store [simp]:
  "lock_marker (snd (runGit mgr args d w)) = lock_marker w"
  "clock (snd (runGit mgr args d w)) = clock w"
  "base_writable (snd (runGit mgr args d w)) = base_writable w"
  "metadata_json (snd (runGit mgr args d w)) = metadata_json w"
  "git_engine (snd (runGit mgr args d w)) = git_engine w"
  "copy_ok (snd (runGit mgr args d w)) = copy_ok w"
  "paths (snd (runGit mgr args d w)) = paths w"
  by (simp_all add: runGit_world)

lemma isGitRepo_store [simp]:
  "lock_marker (snd (isGitRepo mgr w)) = lock_marker w"
  "clock (snd (isGitRepo mgr w)) = clock w"
  "base_writable (snd (isGitRepo mgr w)) = base_writable w"
  "metadata_json (snd (isGitRepo mgr w)) = metadata_json w"
  "git_engine (snd (isGitRepo mgr w)) = git_engine w"
  "copy_ok (snd (isGitRepo mgr w)) = copy_ok w"
  "paths (snd (isGitRepo mgr w)) = paths w"
  by (simp_all add: isGitRepo_def case_prod_beta)

lemma initProjectRepo_store [simp]:
  "lock_marker (snd (initProjectRepo mgr w)) = lock_marker w"
  "clock (snd (initProjectRepo mgr w)) = clock w"
  "base_writable (snd (initProjectRepo mgr w)) = base_writable w"
  "metadata_json (snd (initProjectRepo mgr w)) = metadata_json w"
  "git_engine (snd (initProjectRepo mgr w)) = git_engine w"
  "copy_ok (snd (initProjectRepo mgr w)) = copy_ok w"
  by (simp_all add: initProjectRepo_def case_prod_beta split: bool.splits)

lemma initCheckpointRepo_store [simp]:
  "lock_marker (snd (initCheckpointRepo mgr w)) = lock_marker w"
  "clock (snd (initCheckpointRepo mgr w)) = clock w"
  "base_writable (snd (initCheckpointRepo mgr w)) = base_writable w"
  "metadata_json (snd (initCheckpointRepo mgr w)) = metadata_json w"
  "git_engine (snd (initCheckpointRepo mgr w)) = git_engine w"
  "copy_ok (snd (initCheckpointRepo mgr w)) = copy_ok w"
  by (simp_all add: initCheckpointRepo_def case_prod_beta Let_def split: bool.splits)

lemma syncFiles_store [simp]:
  "lock_marker (snd (syncFiles src dst w)) = lock_marker w"
  "clock (snd (syncFiles src dst w)) = clock w"
  "base_writable (snd (syncFiles src dst w)) = base_writable w"
  "metadata_json (snd (syncFiles src dst w)) = metadata_json w"
  "git_engine (snd (syncFiles src dst w)) = git_engine w"
  "copy_ok (snd (syncFiles src dst w)) = copy_ok w"
  by (simp_all add: syncFiles_def)

lemma createCheckpoint_store [simp]:
  "lock_marker (snd (createCheckpoint mgr msg md w)) = lock_marker w"
  "clock (snd (createCheckpoint mgr msg md w)) = clock w"
  "base_writable (snd (createCheckpoint mgr msg md w)) = base_writable w"
  "metadata_json (snd (createCheckpoint mgr msg md w)) = metadata_json w"
  by (simp_all add: createCheckpoint_def case_prod_beta Let_def split: bool.splits sum.splits)


lemma addCheckpoint_locked_out:
  assumes "fst (acquireLock w) = Inl e"
  shows "fst (addCheckpoint project hash toolName toolInput sessionId w) = Inl e"
  using assms by (cases "acquireLock w") (simp add: addCheckpoint_def)

lemma isGitRepo_engine_ok:
  "git_engine w = engine_ok \<Longrightarrow> fst (isGitRepo mgr w) = True"
  by (simp add: isGitRepo_def runGit_def Let_def engine_ok_def)

lemma createCheckpoint_engine_ok:
  assumes "git_engine w = engine_ok" "copy_ok w = (\<lambda>src dst. True)" "base_writable w"
  shows "fst (createCheckpoint mgr msg md w) = Some ''0123456789abcdef0123456789abcdef01234567''"
proof -
  have g: "fst (runGit mgr args d w') = engine_ok (trace w') (''git '' @ join_with '' '' args)
             (if truthy_str d then the d else projectPath mgr)"
    if "git_engine w' = engine_ok" for args d w'
    using that by (simp add: runGit_def Let_def)
  have t: "trim (stdout (engine_ok tr cmd dir)) = ''0123456789abcdef0123456789abcdef01234567''" for tr cmd dir
    by (simp add: engine_ok_def trim_def is_space_def)
  have r: "returncode (engine_ok tr cmd dir) = 0" for tr cmd dir
    by (simp add: engine_ok_def)
  have i: "fst (initCheckpointRepo mgr w) = True"
    using assms
    by (simp add: initCheckpointRepo_def Let_def case_prod_beta g r isGitRepo_def split: bool.splits)
  show ?thesis
    using assms i
    by (simp add: createCheckpoint_def Let_def case_prod_beta syncFiles_def g r t
          split: bool.splits)
qed

lemma handlePreToolUse_lock_timeout:
  assumes en: "enabled (fst (loadConfig w))"
    and tool: "or_empty (hi_tool_name ev) \<in> set [''Write'', ''Edit'', ''MultiEdit'', ''Manual'']"
    and nex: "\<not> (truthy_str (file_path (case hi_tool_input ev of None \<Rightarrow> empty_ToolInput | Some t \<Rightarrow> t))
               \<and> shouldExcludeFile (fst (loadConfig w)) (snd (loadConfig w))
                    (path_resolve (cwd w)
                       (the (file_path (case hi_tool_input ev of None \<Rightarrow> empty_ToolInput | Some t \<Rightarrow> t)))))"
    and eng: "git_engine w = engine_ok" "copy_ok w = (\<lambda>src dst. True)" "base_writable w"
    and lock: "lock_marker w = Some m" "clock w + 5050 - m \<le> 10000"
  shows "fst (handlePreToolUse sha ev w) = Inl LockTimeout"
proof -
  let ?w = "snd (loadConfig w)"
  let ?mgr = "new_GitCheckpointManager sha (cwd ?w) None ?w"
  have l: "fst (acquireLock w') = Inl LockTimeout"
    if "lock_marker w' = Some m" "clock w' = clock w" "base_writable w'" for w'
    using that lock(2) by (simp add: acquireLock_cases)
  have a: "fst (addCheckpoint p h t i s w') = Inl LockTimeout"
    if "lock_marker w' = Some m" "clock w' = clock w" "base_writable w'" for w' p h t i s
    by (rule addCheckpoint_locked_out [OF l [OF that]])
  show ?thesis
    using en tool nex
    by (simp add: handlePreToolUse_def Let_def case_prod_beta isGitRepo_engine_ok
          createCheckpoint_engine_ok a lock eng del: set_simps)
qed

text \<open>
  Claim C2. A Write event arrives while another process holds the metadata lock and its
  marker is still fresh when the bounded wait ends; every git command succeeds, so the
  checkpoint is created. The before-mutation handler then does not return 0: recording
  the checkpoint fails with the lock-timeout error, which the handler lets through.
\<close>

theorem handlePreToolUse_raises_when_lock_held:
  "fst (handlePreToolUse sha_example write_event held_world) = Inl LockTimeout"
proof (rule handlePreToolUse_lock_timeout)
  show "enabled (fst (loadConfig held_world))"
    by (simp add: loadConfig_def held_world_def quiet_world_def getDefaultConfig_def)
  show "or_empty (hi_tool_name write_event) \<in> set [''Write'', ''Edit'', ''MultiEdit'', ''Manual'']"
    by (simp add: write_event_def or_empty_def)
  show "\<not> (truthy_str (file_path (case hi_tool_input write_event of None \<Rightarrow> empty_ToolInput | Some t \<Rightarrow> t))
               \<and> shouldExcludeFile (fst (loadConfig held_world)) (snd (loadConfig held_world))
                    (path_resolve (cwd held_world)
                       (the (file_path (case hi_tool_input write_event of None \<Rightarrow> empty_ToolInput | Some t \<Rightarrow> t)))))"
    by (simp add: write_event_def loadConfig_def saveConfig_def
        shouldExcludeFile_def getDefaultConfig_def held_world_def quiet_world_def
        path_isAbsolute_def path_relative_def path_resolve_def Let_def matches_pattern_def
        minimatch_def slashSplit_def segment_match_def partial_paths_def path_sep_def)
  show "git_engine held_world = engine_ok" "copy_ok held_world = (\<lambda>src dst. True)"
    "base_writable held_world" "lock_marker held_world = Some 19000"
    "clock held_world + 5050 - 19000 \<le> 10000"
    by (simp_all add: held_world_def quiet_world_def)
qed

lemma addCheckpoint_free:
  assumes "base_writable w" "lock_marker w = None"
  shows "\<exists>r. fst (addCheckpoint project hash toolName toolInput sessionId w) = Inr r"
  using assms
  by (simp add: addCheckpoint_def acquireLock_free saveMetadata_def Let_def)

lemma handlePreToolUse_never_nonzero:
  "fst (handlePreToolUse sha ev w) = Inr n \<Longrightarrow> n = 0"
  by (auto simp: handlePreToolUse_def Let_def case_prod_beta split: if_splits bool.splits sum.splits
        simp del: set_simps)

lemma addCheckpoint_not_raise:
  assumes "base_writable w" "lock_marker w = None"
  shows "fst (addCheckpoint project hash toolName toolInput sessionId w) \<noteq> Inl e"
  using addCheckpoint_free [OF assms, of project hash toolName toolInput sessionId] by auto

lemma handlePreToolUse_returns_zero_when_lock_free:
  assumes "base_writable w" "lock_marker w = None"
  shows "fst (handlePreToolUse sha ev w) = Inr 0"
proof (cases "fst (handlePreToolUse sha ev w)")
  case (Inr n)
  then show ?thesis using handlePreToolUse_never_nonzero by simp
next
  case (Inl e)
  have False
    using Inl assms
    by (auto simp: handlePreToolUse_def Let_def case_prod_beta addCheckpoint_not_raise
          simp del: set_simps split: if_splits bool.splits sum.splits)
  then show ?thesis ..
qed

subsection \<open>Restoring a checkpoint\<close>

lemma validateCheckpointHash_iff:
  "validateCheckpointHash h \<longleftrightarrow> h \<noteq> [] \<and> length h \<le> 40 \<and> (\<forall>c \<in> set h. is_hex_char c)"
  by (cases h) (auto simp: validateCheckpointHash_def list_all_iff)

text \<open>
  Claim C1. \<open>restoreCheckpoint\<close> rejects every hash that contains a character other
  than a decimal digit or a letter \<open>a\<close> to \<open>f\<close> in either case, and every hash of
  more than 40 characters: it returns false and leaves the world as it was, so that no
  git command is run.
\<close>

theorem restoreCheckpoint_rejects_malformed:
  assumes "(\<exists>c \<in> set h. \<not> is_hex_char c) \<or> length h > 40"
  shows "restoreCheckpoint mgr h dryRun w = (False, w)"
  using assms by (auto simp: restoreCheckpoint_def validateCheckpointHash_iff)

theorem restoreCheckpoint_rejects_malformed_witness:
  "restoreCheckpoint example_manager ''abc; rm -rf ~'' False shadow_world = (False, shadow_world)
   \<and> restoreCheckpoint example_manager (replicate 41 CHR ''a'') False shadow_world = (False, shadow_world)"
proof -
  have "\<not> is_hex_char CHR '';''"
    by (simp add: is_hex_char_def)
  then have 1: "(\<exists>c \<in> set ''abc; rm -rf ~''. \<not> is_hex_char c) \<or> length ''abc; rm -rf ~'' > 40"
    by simp
  have 2: "(\<exists>c \<in> set (replicate 41 CHR ''a''). \<not> is_hex_char c)
           \<or> length (replicate 41 CHR ''a'') > 40"
    by simp
  from restoreCheckpoint_rejects_malformed [OF 1] restoreCheckpoint_rejects_malformed [OF 2]
  show ?thesis by simp
qed

lemma example_manager_eval:
  "example_manager = \<lparr>projectPath = ''/proj'',
    checkpointBase = ''/home/u/.claude/hooks/ixe1/claude-code-checkpointing-hook/checkpoints'',
    projectHash = ''0a1b2c3d4e5f'',
    checkpointRepo = ''/home/u/.claude/hooks/ixe1/claude-code-checkpointing-hook/checkpoints/0a1b2c3d4e5f''\<rparr>"
  by (simp add: example_manager_def new_GitCheckpointManager_def hookDir_def path_join_def
        path_normalize_def path_resolve_def path_isAbsolute_def Let_def sha_example_def quiet_world_def)

text \<open>
  The hash \<open>ABCDEF\<close> has characters outside \<open>[a-f0-9]\<close>, yet it passes the
  validation, whose pattern ignores case, and is handed to \<open>git checkout\<close>.
\<close>

theorem restoreCheckpoint_accepts_uppercase:
  "CHR ''A'' \<in> set ''ABCDEF'' \<and> CHR ''A'' \<notin> set ''abcdef0123456789''
   \<and> fst (restoreCheckpoint example_manager ''ABCDEF'' True shadow_world) = True
   \<and> trace (snd (restoreCheckpoint example_manager ''ABCDEF'' True shadow_world))
       = [Git ''git checkout ABCDEF'' (worktreePath example_manager)]"
proof -
  have v: "validateCheckpointHash ''ABCDEF''"
    by (simp add: validateCheckpointHash_def is_hex_char_def)
  have p: "checkpointRepo example_manager \<in> paths shadow_world"
    by (simp add: shadow_world_def)
  have e: "git_engine shadow_world = engine_ok" "trace shadow_world = []"
    by (simp_all add: shadow_world_def quiet_world_def)
  show ?thesis
    by (simp add: restoreCheckpoint_def v p e runGit_in_worktree engine_ok_def)
qed

subsection \<open>Exclusion policy\<close>

lemmas glob_defs = matches_pattern_def minimatch_def slashSplit_def segment_match_def
  partial_paths_def path_sep_def

text \<open>
  Claim C9. With the default patterns, and no file of that name on disk,
  \<open>shouldExcludeFile\<close> returns false for \<open>build/x.js\<close>: the pattern \<open>build/\<close> ends
  with a separator and matches neither the path nor its parent \<open>build\<close>, which the
  code forms without one. (The lemmas after it cover the rest of the claim: \<open>x.log\<close>
  and \<open>.env\<close> are excluded, \<open>src/app.ts\<close> is not, and a file above the size limit is
  excluded whatever its name.)
\<close>

theorem shouldExcludeFile_build_file_not_excluded:
  "shouldExcludeFile getDefaultConfig quiet_world ''build/x.js'' = False"
  by (simp add: shouldExcludeFile_def getDefaultConfig_def quiet_world_def
        path_isAbsolute_def path_resolve_def Let_def glob_defs)

lemma directory_pattern_needs_trailing_slash:
  "minimatch ''build'' ''build/'' = False"
  "minimatch ''build/x.js'' ''build/'' = False"
  "minimatch ''build/'' ''build/'' = True"
  by (simp_all add: minimatch_def slashSplit_def segment_match_def)

lemma shouldExcludeFile_log_and_env:
  "shouldExcludeFile getDefaultConfig w ''x.log'' = True"
  "shouldExcludeFile getDefaultConfig w ''.env'' = True"
  by (simp_all add: shouldExcludeFile_def getDefaultConfig_def path_isAbsolute_def Let_def glob_defs)

lemma shouldExcludeFile_source_file:
  assumes "file_stat w (path_resolve (cwd w) ''src/app.ts'') = Absent"
  shows "shouldExcludeFile getDefaultConfig w ''src/app.ts'' = False"
  using assms
  by (simp add: shouldExcludeFile_def getDefaultConfig_def path_isAbsolute_def Let_def glob_defs)

lemma shouldExcludeFile_oversized:
  assumes "file_stat w (path_resolve (cwd w) p) = Size n" "n > max_file_size_mb config * 1024 * 1024"
  shows "shouldExcludeFile config w p = True"
  using assms by (simp add: shouldExcludeFile_def Let_def)

subsection \<open>Commit annotations\<close>

lemma createCheckpoint_result_independent:
  "fst (createCheckpoint mgr msg metadata w) = fst (createCheckpoint mgr msg metadata' w)"
  by (simp add: createCheckpoint_def Let_def case_prod_beta runGit_def
        split: bool.splits sum.splits)

text \<open>
  The size guard picks the payload that \<open>createCheckpoint\<close> serializes into the command
  line of the note: the payload given when its serialization is at most 1 MiB, and the
  tool name, the session id and the first 10 files otherwise.
\<close>

lemma createCheckpoint_trace:
  assumes "fst (createCheckpoint mgr msg metadata w) = Some h"
  shows "\<exists>pre. trace (snd (createCheckpoint mgr msg metadata w)) =
     pre @ [Git (''git commit -m CHECKPOINT: '' @ msg @ '' ['' @ toISOString (clock w)
                   @ ''] --allow-empty'')
              (worktreePath mgr),
            Git ''git rev-parse HEAD'' (worktreePath mgr),
            Git (''git notes add -m ''
                  @ JSON_stringify_pretty
                      (if byteLength (JSON_stringify metadata) \<le> 1024 * 1024 then metadata
                       else \<lparr>md_tool_name = Some (or_empty (md_tool_name metadata)),
                             md_session_id = Some (or_empty (md_session_id metadata)),
                             md_files = Some (take 10 (case md_files metadata of
                                                         None \<Rightarrow> [] | Some fs \<Rightarrow> fs)),
                             md_extra = []\<rparr>)
                  @ '' '' @ h)
              (worktreePath mgr),
            Git ''git checkout main'' (worktreePath mgr)]"
proof -
  have wt: "truthy_str (Some (worktreePath mgr))"
    by (simp add: worktreePath_def path_join_nonempty)
  have tr: "truncate_metadata metadata =
     \<lparr>md_tool_name = Some (or_empty (md_tool_name metadata)),
      md_session_id = Some (or_empty (md_session_id metadata)),
      md_files = Some (take 10 (case md_files metadata of None \<Rightarrow> [] | Some fs \<Rightarrow> fs)),
      md_extra = []\<rparr>"
    by (simp add: truncate_metadata_def or_empty_def)
  show ?thesis
    using assms wt unfolding tr [symmetric]
    apply (simp add: createCheckpoint_def Let_def case_prod_beta split: bool.splits sum.splits if_splits)
    apply (simp_all add: runGit_def Let_def validateMetadataSize_def)
    done
qed

lemma length_concat_replicate: "length (concat (replicate n xs)) = n * length xs"
  by (induction n) simp_all

lemma json_string_filler: "length (json_string (replicate n CHR ''x'')) = n + 2"
  by (simp add: json_string_def json_escape_def length_concat_replicate)

lemma length_join_with_ge:
  "x \<in> set xs \<Longrightarrow> length x \<le> length (join_with sep xs)"
  by (induction sep xs rule: join_with.induct) auto

lemma big_metadata_oversized: "byteLength (JSON_stringify big_metadata) > 1024 * 1024"
proof -
  let ?m = "json_string ''blob'' @ '':'' @ json_string (replicate 1048576 CHR ''x'')"
  have "?m \<in> set (json_members '':'' json_array big_metadata)"
    by (simp add: json_members_def big_metadata_def)
  from length_join_with_ge [OF this, of "'',''"]
  have "length ?m \<le> length (JSON_stringify big_metadata)"
    by (simp add: JSON_stringify_def)
  moreover have "length ?m > 1024 * 1024"
    by (simp add: json_string_filler)
  ultimately show ?thesis by (simp add: byteLength_def)
qed

lemma small_metadata_fits: "byteLength (JSON_stringify small_metadata) \<le> 1024 * 1024"
  by (simp add: byteLength_def JSON_stringify_def json_members_def small_metadata_def
        json_array_def json_string_def json_escape_def)

lemma replicate_small:
  "replicate 1 c = [c]" "replicate 2 c = [c, c]" "replicate 3 c = [c, c, c]"
  by (simp_all add: numeral_2_eq_2 numeral_3_eq_3)

lemma toISOString_example: "toISOString 20000 = ''1970-01-01T00:00:20.000Z''"
  by (simp add: toISOString_def civil_from_days_def pad_left_def show_nat.simps digit_char_def
        Let_def replicate_small)

lemma worktreePath_example:
  "worktreePath example_manager =
     ''/home/u/.claude/hooks/ixe1/claude-code-checkpointing-hook/checkpoints/0a1b2c3d4e5f/worktree''"
  by (simp add: worktreePath_def example_manager_eval path_join_def path_normalize_def Let_def
        path_isAbsolute_def)

lemma createCheckpoint_shadow_world:
  "createCheckpoint example_manager msg md shadow_world =
     (Some ''0123456789abcdef0123456789abcdef01234567'',
      shadow_world\<lparr>trace :=
        [Sync ''/proj'' (worktreePath example_manager),
         Git ''git add -A'' (worktreePath example_manager),
         Git (''git commit -m CHECKPOINT: '' @ msg @ '' [1970-01-01T00:00:20.000Z] --allow-empty'')
           (worktreePath example_manager),
         Git ''git rev-parse HEAD'' (worktreePath example_manager),
         Git (''git notes add -m ''
               @ JSON_stringify_pretty (if validateMetadataSize md then md else truncate_metadata md)
               @ '' 0123456789abcdef0123456789abcdef01234567'')
           (worktreePath example_manager),
         Git ''git checkout main'' (worktreePath example_manager)]\<rparr>)"
proof -
  have p: "projectPath example_manager = ''/proj''" by (simp add: example_manager_eval)
  have t: "trim (stdout (engine_ok tr cmd dir)) = ''0123456789abcdef0123456789abcdef01234567''"
    for tr cmd dir
    by (simp add: engine_ok_def trim_def is_space_def)
  have r: "returncode (engine_ok tr cmd dir) = 0" for tr cmd dir
    by (simp add: engine_ok_def)
  have c: "clock shadow_world = 20000" "git_engine shadow_world = engine_ok"
    "copy_ok shadow_world = (\<lambda>src dst. True)" "trace shadow_world = []"
    "checkpointRepo example_manager \<in> paths shadow_world"
    by (simp_all add: shadow_world_def quiet_world_def)
  show ?thesis
    by (simp add: createCheckpoint_def initCheckpointRepo_def syncFiles_def runGit_in_worktree
          Let_def p t r c toISOString_example)
qed

lemma truncate_big_metadata:
  "\<not> validateMetadataSize big_metadata"
  "truncate_metadata big_metadata =
     \<lparr>md_tool_name = Some ''Write'', md_session_id = Some ''s1'',
      md_files = Some [''f0'', ''f1'', ''f2'', ''f3'', ''f4'', ''f5'', ''f6'', ''f7'', ''f8'', ''f9''],
      md_extra = []\<rparr>"
  using big_metadata_oversized
  by (simp_all add: validateMetadataSize_def truncate_metadata_def big_metadata_def)

text \<open>
  Claim C8. On a machine where every git command succeeds, \<open>createCheckpoint\<close> with a
  payload of more than 1 MiB (twelve files and a large further entry) returns the commit
  hash: the size guard neither rejects nor aborts. The command line it then runs for the
  note carries the tool name, the session id and the first 10 files; with a small
  payload it carries the payload as given. In both runs the arguments are joined by
  blanks without quoting and the serialization spans several lines, so the first
  command the shell reads from that line is \<open>git notes add -m {\<close>: git is given the
  text \<open>{\<close> and no commit hash, and the payload is not what is attached as the note.
\<close>

theorem createCheckpoint_note_command_line:
  \<open>fst (createCheckpoint example_manager ''Before creating a.txt'' big_metadata shadow_world)
     = Some ''0123456789abcdef0123456789abcdef01234567''
   \<and> trace (snd (createCheckpoint example_manager ''Before creating a.txt'' big_metadata shadow_world))
     = [Sync ''/proj''
          ''/home/u/.claude/hooks/ixe1/claude-code-checkpointing-hook/checkpoints/0a1b2c3d4e5f/worktree'',
        Git ''git add -A''
          ''/home/u/.claude/hooks/ixe1/claude-code-checkpointing-hook/checkpoints/0a1b2c3d4e5f/worktree'',
        Git ''git commit -m CHECKPOINT: Before creating a.txt [1970-01-01T00:00:20.000Z] --allow-empty''
          ''/home/u/.claude/hooks/ixe1/claude-code-checkpointing-hook/checkpoints/0a1b2c3d4e5f/worktree'',
        Git ''git rev-parse HEAD''
          ''/home/u/.claude/hooks/ixe1/claude-code-checkpointing-hook/checkpoints/0a1b2c3d4e5f/worktree'',
        Git (''git notes add -m {'' @ [CHR 0x0A]
             @ ''  "tool_name": "Write",'' @ [CHR 0x0A]
             @ ''  "session_id": "s1",'' @ [CHR 0x0A]
             @ ''  "files": ['' @ [CHR 0x0A]
             @ ''    "f0",'' @ [CHR 0x0A]
             @ ''    "f1",'' @ [CHR 0x0A]
             @ ''    "f2",'' @ [CHR 0x0A]
             @ ''    "f3",'' @ [CHR 0x0A]
             @ ''    "f4",'' @ [CHR 0x0A]
             @ ''    "f5",'' @ [CHR 0x0A]
             @ ''    "f6",'' @ [CHR 0x0A]
             @ ''    "f7",'' @ [CHR 0x0A]
             @ ''    "f8",'' @ [CHR 0x0A]
             @ ''    "f9"'' @ [CHR 0x0A]
             @ ''  ]'' @ [CHR 0x0A]
             @ ''} 0123456789abcdef0123456789abcdef01234567'')
          ''/home/u/.claude/hooks/ixe1/claude-code-checkpointing-hook/checkpoints/0a1b2c3d4e5f/worktree'',
        Git ''git checkout main''
          ''/home/u/.claude/hooks/ixe1/claude-code-checkpointing-hook/checkpoints/0a1b2c3d4e5f/worktree'']
   \<and> exec_argv (trace (snd (createCheckpoint example_manager ''Before creating a.txt''
                                big_metadata shadow_world)) ! 4)
     = [''git'', ''notes'', ''add'', ''-m'', ''{'']
   \<and> trace (snd (createCheckpoint example_manager ''Before creating a.txt'' small_metadata shadow_world)) ! 4
     = Git (''git notes add -m {'' @ [CHR 0x0A]
            @ ''  "tool_name": "Write",'' @ [CHR 0x0A]
            @ ''  "session_id": "s1",'' @ [CHR 0x0A]
            @ ''  "files": ['' @ [CHR 0x0A]
            @ ''    "a.txt"'' @ [CHR 0x0A]
            @ ''  ]'' @ [CHR 0x0A]
            @ ''} 0123456789abcdef0123456789abcdef01234567'')
         ''/home/u/.claude/hooks/ixe1/claude-code-checkpointing-hook/checkpoints/0a1b2c3d4e5f/worktree''
   \<and> exec_argv (trace (snd (createCheckpoint example_manager ''Before creating a.txt''
                                small_metadata shadow_world)) ! 4)
     = [''git'', ''notes'', ''add'', ''-m'', ''{'']\<close>
proof -
  have s: "validateMetadataSize small_metadata"
    using small_metadata_fits by (simp add: validateMetadataSize_def)
  have big: \<open>JSON_stringify_pretty (truncate_metadata big_metadata) =
      ''{'' @ [CHR 0x0A]
      @ ''  "tool_name": "Write",'' @ [CHR 0x0A]
      @ ''  "session_id": "s1",'' @ [CHR 0x0A]
      @ ''  "files": ['' @ [CHR 0x0A]
      @ ''    "f0",'' @ [CHR 0x0A]
      @ ''    "f1",'' @ [CHR 0x0A]
      @ ''    "f2",'' @ [CHR 0x0A]
      @ ''    "f3",'' @ [CHR 0x0A]
      @ ''    "f4",'' @ [CHR 0x0A]
      @ ''    "f5",'' @ [CHR 0x0A]
      @ ''    "f6",'' @ [CHR 0x0A]
      @ ''    "f7",'' @ [CHR 0x0A]
      @ ''    "f8",'' @ [CHR 0x0A]
      @ ''    "f9"'' @ [CHR 0x0A]
      @ ''  ]'' @ [CHR 0x0A]
      @ ''}''\<close>
    unfolding truncate_big_metadata(2)
    by (simp add: JSON_stringify_pretty_def json_members_def json_array_pretty_def
          json_string_def json_escape_def Let_def)
  have small: \<open>JSON_stringify_pretty small_metadata =
      ''{'' @ [CHR 0x0A]
      @ ''  "tool_name": "Write",'' @ [CHR 0x0A]
      @ ''  "session_id": "s1",'' @ [CHR 0x0A]
      @ ''  "files": ['' @ [CHR 0x0A]
      @ ''    "a.txt"'' @ [CHR 0x0A]
      @ ''  ]'' @ [CHR 0x0A]
      @ ''}''\<close>
    by (simp add: small_metadata_def JSON_stringify_pretty_def json_members_def
          json_array_pretty_def json_string_def json_escape_def Let_def)
  show ?thesis
    unfolding createCheckpoint_shadow_world worktreePath_example
    by (simp add: truncate_big_metadata(1) s big small sh_first_command_def)
qed

end
